theory Spec2Isabelle
  imports Main
begin

section \<open>Python values\<close>

text \<open>
  A Python \<open>str\<close> is a sequence of Unicode code points, and \<open>len\<close>, \<open>chr\<close>,
  \<open>ord\<close>, \<open>strip\<close>, \<open>replace\<close> and \<open>split\<close> all count code points. A string is
  therefore a list of code points; \<open>py ''abc''\<close> is the literal \<open>"abc"\<close>.
\<close>

type_synonym pystr = "nat list"

abbreviation py :: "string \<Rightarrow> pystr" where
  "py s \<equiv> map of_char s"

text \<open>
  Every \<open>raise\<close> of the source and every exception of a Python builtin that the
  source can trigger is a constructor. \<open>NotModelled\<close> marks the inputs on which a
  Python builtin (\<open>str.format\<close>, \<open>%\<close>, \<open>int\<close>) leaves the fragment embedded here.
\<close>

datatype error =
    InvalidArgumentCount pystr int int
  | InvalidEnvArgumentCount pystr int
  | ItemExpected pystr
  | InvalidCommand pystr pystr
  | MalformedNewcommand pystr
  | SizeLimitExceeded int int
  | NestingLimitExceeded int
  | ExcessStackingLimit
  | MissingSheetId pystr
  | MissingSheetName pystr
  | UnknownNode pystr
  | PyIndexError
  | PyKeyError pystr
  | PyValueError
  | PyTypeError
  | ParserError
  | ValidationError
  | NotModelled

datatype pyval = PInt int | PStr pystr

text \<open>Sequencing of fallible steps: the first error ends the computation.\<close>

definition and_then :: "error + 'a \<Rightarrow> ('a \<Rightarrow> error + 'b) \<Rightarrow> error + 'b" where
  "and_then r f = (case r of Inl e \<Rightarrow> Inl e | Inr x \<Rightarrow> f x)"

fun map_err :: "('a \<Rightarrow> error + 'b) \<Rightarrow> 'a list \<Rightarrow> error + 'b list" where
  "map_err f [] = Inr []"
| "map_err f (x # xs) = and_then (f x) (\<lambda>y. and_then (map_err f xs) (\<lambda>ys. Inr (y # ys)))"

text \<open>
  A \<open>dict\<close> keeps its keys in insertion order: an association list in which a
  stored key keeps its place and a new key goes to the end.
\<close>

fun dict_set :: "('k \<times> 'v) list \<Rightarrow> 'k \<Rightarrow> 'v \<Rightarrow> ('k \<times> 'v) list" where
  "dict_set [] k v = [(k, v)]"
| "dict_set ((k', v') # rest) k v =
     (if k' = k then (k, v) # rest else (k', v') # dict_set rest k v)"

definition is_digit :: "nat \<Rightarrow> bool" where
  "is_digit c \<longleftrightarrow> 48 \<le> c \<and> c \<le> 57"

text \<open>\<open>str(n)\<close> for an integer: decimal digits, with a minus sign when negative.\<close>

fun digits_of :: "nat \<Rightarrow> pystr" where
  "digits_of n = (if n < 10 then [48 + n] else digits_of (n div 10) @ [48 + n mod 10])"

definition str_int :: "int \<Rightarrow> pystr" where
  "str_int i = (if i < 0 then 45 # digits_of (nat (- i)) else digits_of (nat i))"

definition str_val :: "pyval \<Rightarrow> pystr" where
  "str_val v = (case v of PInt i \<Rightarrow> str_int i | PStr s \<Rightarrow> s)"

text \<open>\<open>str.isspace\<close> on one code point, and \<open>str.strip()\<close>.\<close>

definition is_space :: "nat \<Rightarrow> bool" where
  "is_space c \<longleftrightarrow>
     (9 \<le> c \<and> c \<le> 13) \<or> (28 \<le> c \<and> c \<le> 32) \<or> c = 133 \<or> c = 160 \<or> c = 5760
     \<or> (8192 \<le> c \<and> c \<le> 8202) \<or> c = 8232 \<or> c = 8233 \<or> c = 8239 \<or> c = 8287
     \<or> c = 12288"

definition strip :: "pystr \<Rightarrow> pystr" where
  "strip s = rev (dropWhile is_space (rev (dropWhile is_space s)))"

text \<open>\<open>sep.join(xs)\<close>.\<close>

fun join :: "pystr \<Rightarrow> pystr list \<Rightarrow> pystr" where
  "join sep [] = []"
| "join sep [x] = x"
| "join sep (x # y # ys) = x @ sep @ join sep (y # ys)"

text \<open>
  \<open>s.split(sep, 1)\<close> at the first occurrence of a non-empty \<open>sep\<close>: the text before
  it and the text after it, or \<open>None\<close> when \<open>sep\<close> does not occur (\<open>sep in s\<close> is
  false).
\<close>

fun split_once :: "pystr \<Rightarrow> pystr \<Rightarrow> (pystr \<times> pystr) option" where
  "split_once sep [] = None"
| "split_once sep (c # cs) =
     (if take (length sep) (c # cs) = sep then Some ([], drop (length sep) (c # cs))
      else map_option (\<lambda>(a, b). (c # a, b)) (split_once sep cs))"

text \<open>
  \<open>s.replace(old, new)\<close> for a non-empty \<open>old\<close>: leftmost, non-overlapping. The first
  argument counts the code points of a match that are still to be skipped.
\<close>

fun replace_from :: "nat \<Rightarrow> pystr \<Rightarrow> pystr \<Rightarrow> pystr \<Rightarrow> pystr" where
  "replace_from k old new [] = []"
| "replace_from (Suc k) old new (c # cs) = replace_from k old new cs"
| "replace_from 0 old new (c # cs) =
     (if take (length old) (c # cs) = old then new @ replace_from (length old - 1) old new cs
      else c # replace_from 0 old new cs)"

definition replace :: "pystr \<Rightarrow> pystr \<Rightarrow> pystr \<Rightarrow> pystr" where
  "replace s old new = replace_from 0 old new s"

subsection \<open>\<open>str.format\<close> with positional arguments\<close>

text \<open>
  The fragment of \<open>content.format(*args)\<close> that is embedded: literal text, the escapes
  \<open>{{\<close> and \<open>}}\<close>, and fields \<open>{N}\<close> whose name is a decimal index. A lone brace is
  Python's ValueError, an index past the arguments its IndexError; any other field
  (automatic numbering, names, attributes, conversions, format specs) is \<open>NotModelled\<close>.
\<close>

datatype fmode = FLit | FOpen | FField pystr | FClose

definition index_of_digits :: "pystr \<Rightarrow> nat" where
  "index_of_digits ds = foldl (\<lambda>a d. 10 * a + (d - 48)) 0 ds"

fun format_from :: "fmode \<Rightarrow> pystr \<Rightarrow> pystr \<Rightarrow> pystr list \<Rightarrow> error + pystr" where
  "format_from FLit out [] args = Inr out"
| "format_from FOpen out [] args = Inl PyValueError"
| "format_from (FField f) out [] args = Inl PyValueError"
| "format_from FClose out [] args = Inl PyValueError"
| "format_from FLit out (c # cs) args =
     (if c = 123 then format_from FOpen out cs args
      else if c = 125 then format_from FClose out cs args
      else format_from FLit (out @ [c]) cs args)"
| "format_from FOpen out (c # cs) args =
     (if c = 123 then format_from FLit (out @ [123]) cs args
      else if c = 125 then Inl NotModelled
      else format_from (FField [c]) out cs args)"
| "format_from (FField f) out (c # cs) args =
     (if c = 125 then
        (if list_all is_digit f then
           (if index_of_digits f < length args
            then format_from FLit (out @ args ! index_of_digits f) cs args
            else Inl PyIndexError)
         else Inl NotModelled)
      else if c = 123 then Inl NotModelled
      else format_from (FField (f @ [c])) out cs args)"
| "format_from FClose out (c # cs) args =
     (if c = 125 then format_from FLit (out @ [125]) cs args else Inl PyValueError)"

definition format_py :: "pystr \<Rightarrow> pystr list \<Rightarrow> error + pystr" where
  "format_py content args = format_from FLit [] content args"

subsection \<open>The \<open>%\<close> operator with a dictionary\<close>

text \<open>
  The fragment of \<open>fmt % data\<close> that is embedded: literal text, \<open>%%\<close>, and the
  conversions \<open>%(key)s\<close>, \<open>%(key)i\<close> and \<open>%(key)d\<close>. The key is looked up as soon as
  its closing parenthesis is read (KeyError), an integer conversion of a string is
  Python's TypeError, an unfinished conversion its ValueError; flags, widths and
  conversions without a key are \<open>NotModelled\<close>.
\<close>

datatype pmode = PLit | PPct | PKey pystr | PConv pyval

fun percent_from :: "pmode \<Rightarrow> pystr \<Rightarrow> pystr \<Rightarrow> (pystr \<times> pyval) list \<Rightarrow> error + pystr" where
  "percent_from PLit out [] data = Inr out"
| "percent_from PPct out [] data = Inl PyValueError"
| "percent_from (PKey k) out [] data = Inl PyValueError"
| "percent_from (PConv v) out [] data = Inl PyValueError"
| "percent_from PLit out (c # cs) data =
     (if c = 37 then percent_from PPct out cs data
      else percent_from PLit (out @ [c]) cs data)"
| "percent_from PPct out (c # cs) data =
     (if c = 37 then percent_from PLit (out @ [37]) cs data
      else if c = 40 then percent_from (PKey []) out cs data
      else Inl NotModelled)"
| "percent_from (PKey k) out (c # cs) data =
     (if c = 41 then
        (case map_of data k of
           None \<Rightarrow> Inl (PyKeyError k)
         | Some v \<Rightarrow> percent_from (PConv v) out cs data)
      else if c = 40 then Inl NotModelled
      else percent_from (PKey (k @ [c])) out cs data)"
| "percent_from (PConv v) out (c # cs) data =
     (if c = 115 then percent_from PLit (out @ str_val v) cs data
      else if c = 105 \<or> c = 100 then
        (case v of
           PInt i \<Rightarrow> percent_from PLit (out @ str_int i) cs data
         | PStr s \<Rightarrow> Inl PyTypeError)
      else Inl NotModelled)"

definition percent_format :: "pystr \<Rightarrow> (pystr \<times> pyval) list \<Rightarrow> error + pystr" where
  "percent_format fmt data = percent_from PLit [] fmt data"

text \<open>
  \<open>int(s)\<close> on a string of ASCII digits; the other spellings Python accepts (signs,
  surrounding whitespace, underscores, other scripts) are \<open>NotModelled\<close>. \<open>chr(i)\<close>
  raises ValueError outside the Unicode range.
\<close>

definition int_py :: "pystr \<Rightarrow> error + int" where
  "int_py s = (if s \<noteq> [] \<and> list_all is_digit s then Inr (int (index_of_digits s))
               else Inl NotModelled)"

definition chr_py :: "int \<Rightarrow> error + pystr" where
  "chr_py i = (if 0 \<le> i \<and> i \<le> 1114111 then Inr [nat i] else Inl PyValueError)"

section \<open>Configuration\<close>

text \<open>
  The values read from \<open>get_config("latex")\<close> and \<open>get_config("localization")\<close>; the
  configuration files are not part of the sources, so they are a parameter.
  \<open>first_problem_character\<close> is a one-character string, held as its code point
  (the module applies \<open>ord\<close> to it when it is loaded).
\<close>

record config =
  character_limit :: int
  command_nesting_limit :: int
  excess_stacking :: int
  first_problem_character :: nat
  problem_skips :: pystr
  no_sheet_id :: pystr
  no_sheet_name :: pystr

definition problem_skip_indices :: "config \<Rightarrow> int list" where
  "problem_skip_indices cfg =
     map (\<lambda>c. int c - int (first_problem_character cfg)) (problem_skips cfg)"

definition priority_cap :: int where
  "priority_cap = 10000"

section \<open>Metadata nodes\<close>

text \<open>
  \<open>MetadataNode.kwargs\<close>: the keys the sources ever store, and \<open>cls\<close>, which the
  constructor always sets.
\<close>

record metadata_kwargs =
  kw_text :: "pystr option"
  kw_num :: "pystr option"
  kw_conduit_include :: "bool option"
  kw_conduit_num :: "pystr option"
  kw_cls :: pystr

record metadata_node =
  collect_text :: bool
  kwargs :: metadata_kwargs

definition no_kwargs :: metadata_kwargs where
  "no_kwargs = \<lparr>kw_text = None, kw_num = None, kw_conduit_include = None,
                 kw_conduit_num = None, kw_cls = []\<rparr>"

definition MetadataNode :: "pystr \<Rightarrow> metadata_kwargs \<Rightarrow> metadata_node" where
  "MetadataNode cls kw = \<lparr>collect_text = True, kwargs = kw\<lparr>kw_cls := cls\<rparr>\<rparr>"

text \<open>
  \<open>collect\<close> returns its pair and the node as the call leaves it (\<open>self.kwargs\<close> is
  updated in place). The flush sentinel \<open>None\<close> is \<open>None\<close>.
\<close>

definition collect ::
  "metadata_node \<Rightarrow> pystr option \<Rightarrow> (metadata_kwargs option \<times> pystr) \<times> metadata_node" where
  "collect self txt =
     (let kw = (if collect_text self \<and> kw_text (kwargs self) = None
                then (kwargs self)\<lparr>kw_text := Some []\<rparr> else kwargs self);
          buf = (case kw_text kw of Some t \<Rightarrow> t | None \<Rightarrow> [])
      in case (if collect_text self then txt else None) of
           Some t \<Rightarrow> ((None, []), self\<lparr>kwargs := kw\<lparr>kw_text := Some (buf @ t)\<rparr>\<rparr>)
         | None \<Rightarrow>
             if \<not> collect_text self \<or> buf \<noteq> [] then
               (if collect_text self then
                  (case split_once [10, 10] buf of
                     Some (kept, excess_text) \<Rightarrow>
                       ((Some (kw\<lparr>kw_text := Some kept\<rparr>), excess_text),
                        self\<lparr>kwargs := kw\<lparr>kw_text := Some kept\<rparr>\<rparr>)
                   | None \<Rightarrow> ((Some kw, []), self\<lparr>kwargs := kw\<rparr>))
                else ((Some kw, []), self\<lparr>kwargs := kw\<rparr>))
             else ((None, []), self\<lparr>kwargs := kw\<rparr>))"

section \<open>The parser library\<close>

text \<open>
  TexSoup is an external library. Its tree is a state \<open>'s\<close> and its node, group and
  expression objects are handles \<open>'n\<close> into that state; the operations the sources
  call are the fields of a record, so that every theorem holds for every
  implementation of them. What a tree holds is text, a node, or a metadata node that
  a command put there. \<open>TexSoup\<close> is the parser (\<open>None\<close> when it raises);
  \<open>find_all\<close> gives the nodes of a query as a list, taken when the query is made;
  the name of a node is an attribute the sources never change, the arguments,
  contents, children and parent of a node are read from the current tree.
\<close>

datatype 'n item = IStr pystr | INode 'n | IMeta metadata_node

record ('s, 'n) texsoup =
  TexSoup :: "pystr \<Rightarrow> 's option"
  find_all :: "'s \<Rightarrow> pystr list \<Rightarrow> 'n list"
  node_name :: "'n \<Rightarrow> pystr"
  node_args :: "'s \<Rightarrow> 'n \<Rightarrow> 'n list"
  node_contents :: "'s \<Rightarrow> 'n \<Rightarrow> 'n item list"
  node_children :: "'s \<Rightarrow> 'n \<Rightarrow> 'n list"
  node_parent :: "'s \<Rightarrow> 'n \<Rightarrow> 'n"
  node_replace :: "'s \<Rightarrow> 'n \<Rightarrow> 'n \<Rightarrow> 'n item list \<Rightarrow> 's"
  node_remove :: "'s \<Rightarrow> 'n \<Rightarrow> 'n \<Rightarrow> 's"
  set_contents :: "'s \<Rightarrow> 'n \<Rightarrow> 'n item list \<Rightarrow> 's"
  is_TexCmd :: "'n \<Rightarrow> bool"
  node_truthy :: "'s \<Rightarrow> 'n \<Rightarrow> bool"
  node_str :: "'s \<Rightarrow> 'n \<Rightarrow> pystr"
  soup_str :: "'s \<Rightarrow> pystr"
  soup_contents :: "'s \<Rightarrow> 'n item list"
  metadata_str :: "metadata_node \<Rightarrow> pystr"

text \<open>\<open>str(x)\<close> and \<open>bool(x)\<close> for an element of a contents list.\<close>

definition item_str :: "('s, 'n) texsoup \<Rightarrow> 's \<Rightarrow> 'n item \<Rightarrow> pystr" where
  "item_str L soup x =
     (case x of IStr s \<Rightarrow> s | INode n \<Rightarrow> node_str L soup n | IMeta m \<Rightarrow> metadata_str L m)"

definition item_truthy :: "('s, 'n) texsoup \<Rightarrow> 's \<Rightarrow> 'n item \<Rightarrow> bool" where
  "item_truthy L soup x =
     (case x of IStr s \<Rightarrow> s \<noteq> [] | INode n \<Rightarrow> node_truthy L soup n | IMeta m \<Rightarrow> True)"

section \<open>Commands\<close>

text \<open>
  The subclasses of \<open>LatexCommand\<close>, with the attributes their constructors store, in
  the order of the constructors' parameters; \<open>priority\<close> is the attribute of the base
  class.
\<close>

datatype command_kind =
    TextCommand pystr int "pystr option" bool
  | ItemExtractor pystr
  | TextEnv pystr int pystr "pystr option" bool
  | ErrorCommand pystr
  | GlobalConfig pystr bool
  | ProblemMacro pystr "int option" "int option" bool pystr

record latex_command =
  priority :: int
  kind :: command_kind

definition command :: "command_kind \<Rightarrow> latex_command" where
  "command k = \<lparr>priority = 0, kind = k\<rparr>"

definition set_priority :: "latex_command \<Rightarrow> int \<Rightarrow> latex_command" where
  "set_priority self prio = self\<lparr>priority := prio\<rparr>"

definition get_priority :: "latex_command \<Rightarrow> int" where
  "get_priority self =
     (case kind self of
        TextEnv content num_args metaname optional_arg trim_contents \<Rightarrow> - 1
      | ProblemMacro fmt letter problem conduit_include cfmt \<Rightarrow> - 333
      | _ \<Rightarrow> priority self)"

subsection \<open>TextCommand\<close>

text \<open>
  \<open>hash_regex.sub\<close>: every \<open>#d\<close> at the start of the text or after a code point other
  than a backslash becomes \<open>{d-1}\<close>, the code point before it kept. Matches do not
  overlap, so the scan goes on after the digit; \<open>hash_sub_from\<close> is the scan at a
  position where the start-of-text alternative cannot match.
\<close>

definition placeholder :: "nat \<Rightarrow> pystr" where
  "placeholder d = [123] @ str_int (int d - 48 - 1) @ [125]"

fun hash_sub_from :: "pystr \<Rightarrow> pystr" where
  "hash_sub_from (c # h # d # rest) =
     (if c \<noteq> 92 \<and> h = 35 \<and> is_digit d then c # placeholder d @ hash_sub_from rest
      else c # hash_sub_from (h # d # rest))"
| "hash_sub_from cs = cs"

fun hash_sub :: "pystr \<Rightarrow> pystr" where
  "hash_sub (h # d # rest) =
     (if h = 35 \<and> is_digit d then placeholder d @ hash_sub_from rest
      else hash_sub_from (h # d # rest))"
| "hash_sub cs = cs"

text \<open>
  \<open>TextCommand.__init__\<close> applies the regular expression to \<open>content\<close>, which
  \<open>re.sub\<close> accepts only when it is a string: the built-in table passes a string,
  \<open>soup_to_command\<close> passes the contents list of a group.
\<close>

datatype 'n content_arg = CStr pystr | CSeq "'n item list"

definition TextCommand_str :: "pystr \<Rightarrow> int \<Rightarrow> pystr option \<Rightarrow> bool \<Rightarrow> latex_command" where
  "TextCommand_str content num_args optional_arg trim_contents =
     command (TextCommand (hash_sub content) num_args optional_arg trim_contents)"

definition TextCommand_init ::
  "'n content_arg \<Rightarrow> int \<Rightarrow> pystr option \<Rightarrow> bool \<Rightarrow> error + latex_command" where
  "TextCommand_init content num_args optional_arg trim_contents =
     (case content of
        CStr s \<Rightarrow> Inr (TextCommand_str s num_args optional_arg trim_contents)
      | CSeq xs \<Rightarrow> Inl PyTypeError)"

definition TextEnv_str ::
  "pystr \<Rightarrow> int \<Rightarrow> pystr \<Rightarrow> pystr option \<Rightarrow> bool \<Rightarrow> latex_command" where
  "TextEnv_str content num_args metaname optional_arg trim_contents =
     command (TextEnv (hash_sub content) num_args metaname optional_arg trim_contents)"

definition TextCommand_apply ::
  "pystr \<Rightarrow> int \<Rightarrow> pystr option \<Rightarrow> bool \<Rightarrow> pystr \<Rightarrow> pystr list \<Rightarrow> error + pystr" where
  "TextCommand_apply content num_args optional_arg trim_contents name args =
     (if int (length args) > num_args \<or> int (length args) < num_args - 1
         \<or> (int (length args) = num_args - 1 \<and> optional_arg = None)
      then Inl (InvalidArgumentCount name num_args (int (length args)))
      else
        let args1 = (if int (length args) = num_args then args
                     else (case optional_arg of Some d \<Rightarrow> d # args | None \<Rightarrow> args));
            args2 = (if trim_contents then map strip args1 else args1)
        in format_py content args2)"

text \<open>
  \<open>TextCommand.recursion_ready\<close> (inherited by \<open>TextEnv\<close>): no element of an argument
  group is a \<open>TexCmd\<close> whose name is a key of the command table.
\<close>

definition TextCommand_recursion_ready ::
  "('s, 'n) texsoup \<Rightarrow> 's \<Rightarrow> 'n \<Rightarrow> (pystr \<times> latex_command) list \<Rightarrow> bool" where
  "TextCommand_recursion_ready L soup cmd all_commands =
     (let arg_data = concat (map (node_contents L soup) (node_args L soup cmd))
      in \<not> list_ex (\<lambda>c. case c of
                            INode n \<Rightarrow> is_TexCmd L n \<and> node_name L n \<in> set (map fst all_commands)
                          | _ \<Rightarrow> False) arg_data)"

subsection \<open>The shared context\<close>

text \<open>
  The dictionary \<open>context\<close>: \<open>iterators\<close>, \<open>commands\<close>, and the keys that
  \<open>GlobalConfig\<close> commands add, kept apart as \<open>globals\<close>.
\<close>

record shared_context =
  iterators :: "(pystr \<times> int) list"
  commands :: "(pystr \<times> latex_command) list"
  globals :: "(pystr \<times> pystr) list"

subsection \<open>ItemExtractor\<close>

fun extract_items ::
  "('s, 'n) texsoup \<Rightarrow> 's \<Rightarrow> 'n item list \<Rightarrow> pystr list \<Rightarrow> error + pystr list" where
  "extract_items L soup [] ans = Inr ans"
| "extract_items L soup (child # rest) ans =
     (if \<not> item_truthy L soup child then extract_items L soup rest ans
      else if (case child of INode n \<Rightarrow> node_name L n = py ''item'' | _ \<Rightarrow> False)
        then extract_items L soup rest (ans @ [drop 6 (item_str L soup child)])
      else if ans = [] then Inl (ItemExpected (item_str L soup child))
      else extract_items L soup rest (butlast ans @ [last ans @ item_str L soup child]))"

definition ItemExtractor_apply ::
  "('s, 'n) texsoup \<Rightarrow> pystr \<Rightarrow> 's \<Rightarrow> 'n \<Rightarrow> error + ('n item list \<times> 's)" where
  "ItemExtractor_apply L fmt soup node =
     and_then (extract_items L soup (node_contents L soup node) []) (\<lambda>ans.
     and_then (map_err (\<lambda>(index, x). percent_format fmt
                          [(py ''index'', PInt (int index)), (py ''item'', PStr x)])
                 (zip [0..<length ans] ans)) (\<lambda>items.
       Inr ([IMeta (MetadataNode (py ''text'')
                      (no_kwargs\<lparr>kw_text := Some ([10, 10] @ join [10] items)\<rparr>)),
             IMeta (MetadataNode (py ''text'') no_kwargs)],
            set_contents L soup node [])))"

definition ItemExtractor_recursion_ready ::
  "('s, 'n) texsoup \<Rightarrow> 's \<Rightarrow> 'n \<Rightarrow> (pystr \<times> latex_command) list \<Rightarrow> bool" where
  "ItemExtractor_recursion_ready L soup cmd all_commands =
     (\<not> list_ex (\<lambda>c. case c of
                       INode n \<Rightarrow> node_name L n \<in> set (map fst all_commands)
                     | _ \<Rightarrow> False) (node_contents L soup cmd))"

subsection \<open>TextEnv, ErrorCommand, GlobalConfig\<close>

definition TextEnv_apply ::
  "('s, 'n) texsoup \<Rightarrow> pystr \<Rightarrow> pystr \<Rightarrow> 's \<Rightarrow> 'n \<Rightarrow> pystr list \<Rightarrow> error + 'n item list" where
  "TextEnv_apply L content metaname soup node args =
     (if length args \<noteq> 0
      then Inl (InvalidEnvArgumentCount (node_name L node) (int (length args)))
      else and_then (format_py content
                       [concat (map (item_str L soup) (node_contents L soup node))]) (\<lambda>body.
             Inr [IMeta (MetadataNode metaname no_kwargs), IStr body,
                  IMeta (MetadataNode (py ''text'') no_kwargs)]))"

definition ErrorCommand_apply :: "pystr \<Rightarrow> pystr \<Rightarrow> error + 'a" where
  "ErrorCommand_apply replace_name name = Inl (InvalidCommand name replace_name)"

text \<open>
  \<open>GlobalConfig.apply\<close> stores \<open>args[0]\<close> under \<open>target_name\<close>. No command of the
  sources targets the keys \<open>iterators\<close> and \<open>commands\<close>; storing a string there is
  left out of the model.
\<close>

definition GlobalConfig_apply ::
  "pystr \<Rightarrow> bool \<Rightarrow> shared_context \<Rightarrow> pystr list \<Rightarrow> error + ('n item list \<times> shared_context)" where
  "GlobalConfig_apply target_name strip_flag ctx args =
     (case args of
        [] \<Rightarrow> Inl PyIndexError
      | a # rest \<Rightarrow>
          if target_name = py ''iterators'' \<or> target_name = py ''commands'' then Inl NotModelled
          else Inr ([IStr []],
                    ctx\<lparr>globals := dict_set (globals ctx) target_name
                                     (if strip_flag then strip a else a)\<rparr>))"

subsection \<open>ProblemMacro\<close>

definition update_iterator ::
  "shared_context \<Rightarrow> pystr \<Rightarrow> int option \<Rightarrow> error + shared_context" where
  "update_iterator ctx it_name val =
     (case val of
        None \<Rightarrow> Inr ctx
      | Some v \<Rightarrow>
          if v > 0 then
            (case map_of (iterators ctx) it_name of
               None \<Rightarrow> Inl (PyKeyError it_name)
             | Some old \<Rightarrow> Inr (ctx\<lparr>iterators := dict_set (iterators ctx) it_name (old + v)\<rparr>))
          else Inr (ctx\<lparr>iterators := dict_set (iterators ctx) it_name v\<rparr>))"

definition get_iterator :: "shared_context \<Rightarrow> pystr \<Rightarrow> error + int" where
  "get_iterator ctx it_name =
     (case map_of (iterators ctx) it_name of
        None \<Rightarrow> Inl (PyKeyError it_name) | Some v \<Rightarrow> Inr v)"

text \<open>
  The arguments of \<open>apply\<close> are the strings that \<open>convert_latex\<close> joins, so
  \<open>isinstance(args[0], str)\<close> holds whenever there is an argument.
\<close>

definition ProblemMacro_apply ::
  "config \<Rightarrow> pystr \<Rightarrow> int option \<Rightarrow> int option \<Rightarrow> bool \<Rightarrow> pystr \<Rightarrow> shared_context \<Rightarrow>
     pystr list \<Rightarrow> error + ('n item list \<times> shared_context)" where
  "ProblemMacro_apply cfg fmt letter problem conduit_include cfmt ctx args =
     and_then (update_iterator ctx (py ''problem'') problem) (\<lambda>ctx1.
     and_then (update_iterator ctx1 (py ''letter'') letter) (\<lambda>ctx2.
     and_then (get_iterator ctx2 (py ''letter'')) (\<lambda>cur_letter.
     and_then (chr_py (int (first_problem_character cfg) + (cur_letter
                 + int (length (filter (\<lambda>i. i < cur_letter) (problem_skip_indices cfg))))))
       (\<lambda>letter_str.
     and_then (get_iterator ctx2 (py ''problem'')) (\<lambda>cur_problem.
       let extra_text = (case args of [] \<Rightarrow> [] | a # rest \<Rightarrow> py '' ('' @ a @ py '')'');
           format_data = [(py ''z'', PInt cur_problem), (py ''leth'', PStr letter_str),
                          (py ''ext'', PStr extra_text)]
       in and_then (percent_format fmt format_data) (\<lambda>fmt1.
          and_then (percent_format cfmt format_data) (\<lambda>cfmt1.
            Inr ([IMeta (MetadataNode (py ''problem'')
                           (no_kwargs\<lparr>kw_num := Some (replace fmt1 (py ''))'') (py '')'')),
                                      kw_conduit_include := Some conduit_include,
                                      kw_conduit_num := Some cfmt1\<rparr>))],
                 ctx2))))))))"

subsection \<open>Dispatch, and \<open>LatexCommand.invoke\<close>\<close>

definition recursion_ready ::
  "('s, 'n) texsoup \<Rightarrow> 's \<Rightarrow> latex_command \<Rightarrow> 'n \<Rightarrow> (pystr \<times> latex_command) list \<Rightarrow> bool" where
  "recursion_ready L soup self cmd all_commands =
     (case kind self of
        TextCommand content num_args optional_arg trim_contents \<Rightarrow>
          TextCommand_recursion_ready L soup cmd all_commands
      | TextEnv content num_args metaname optional_arg trim_contents \<Rightarrow>
          TextCommand_recursion_ready L soup cmd all_commands
      | ItemExtractor fmt \<Rightarrow> ItemExtractor_recursion_ready L soup cmd all_commands
      | _ \<Rightarrow> True)"

definition apply_command ::
  "('s, 'n) texsoup \<Rightarrow> config \<Rightarrow> latex_command \<Rightarrow> 's \<times> shared_context \<Rightarrow> 'n \<Rightarrow> pystr list \<Rightarrow>
     error + ('n item list \<times> 's \<times> shared_context)" where
  "apply_command L cfg self st node args =
     (case st of (soup, ctx) \<Rightarrow>
        (case kind self of
           TextCommand content num_args optional_arg trim_contents \<Rightarrow>
             and_then (TextCommand_apply content num_args optional_arg trim_contents
                         (node_name L node) args) (\<lambda>r. Inr ([IStr r], soup, ctx))
         | ItemExtractor fmt \<Rightarrow>
             and_then (ItemExtractor_apply L fmt soup node) (\<lambda>(r, soup1). Inr (r, soup1, ctx))
         | TextEnv content num_args metaname optional_arg trim_contents \<Rightarrow>
             and_then (TextEnv_apply L content metaname soup node args) (\<lambda>r. Inr (r, soup, ctx))
         | ErrorCommand replace_name \<Rightarrow> ErrorCommand_apply replace_name (node_name L node)
         | GlobalConfig target_name strip_flag \<Rightarrow>
             and_then (GlobalConfig_apply target_name strip_flag ctx args)
               (\<lambda>(r, ctx1). Inr (r, soup, ctx1))
         | ProblemMacro fmt letter problem conduit_include cfmt \<Rightarrow>
             and_then (ProblemMacro_apply cfg fmt letter problem conduit_include cfmt ctx args)
               (\<lambda>(r, ctx1). Inr (r, soup, ctx1))))"

text \<open>
  \<open>invoke\<close> splices the replacement where the node stood: inside the first argument
  group of the parent that has the node among its children, or else through the
  parent's \<open>replace\<close>. A \<open>str\<close>, a metadata node and a tuple of them are all a list
  of items here. No \<open>apply\<close> of the sources returns \<open>False\<close>.
\<close>

definition splice :: "('s, 'n) texsoup \<Rightarrow> 's \<Rightarrow> 'n \<Rightarrow> 'n item list \<Rightarrow> 's" where
  "splice L soup node replacement =
     (case find (\<lambda>arg. node \<in> set (node_children L soup arg))
             (node_args L soup (node_parent L soup node)) of
        Some arg \<Rightarrow>
          set_contents L soup arg
            (concat (map (\<lambda>c. if c \<noteq> INode node then [c] else replacement)
                       (node_contents L soup arg)))
      | None \<Rightarrow> node_replace L soup (node_parent L soup node) node replacement)"

definition invoke ::
  "('s, 'n) texsoup \<Rightarrow> config \<Rightarrow> latex_command \<Rightarrow> 's \<times> shared_context \<Rightarrow> 'n \<Rightarrow> pystr list \<Rightarrow>
     error + ('s \<times> shared_context)" where
  "invoke L cfg self st node args =
     and_then (apply_command L cfg self st node args) (\<lambda>(replacement, soup1, ctx1).
       Inr (splice L soup1 node replacement, ctx1))"

section \<open>Macro definitions\<close>

definition first_item :: "'a list \<Rightarrow> error + 'a" where
  "first_item xs = (case xs of [] \<Rightarrow> Inl PyIndexError | x # rest \<Rightarrow> Inr x)"

definition int_item :: "'n item \<Rightarrow> error + int" where
  "int_item x = (case x of IStr s \<Rightarrow> int_py s | _ \<Rightarrow> Inl PyTypeError)"

text \<open>
  \<open>soup_to_command\<close>. The optional argument is kept as the string \<open>format\<close> would
  render it with.
\<close>

definition soup_to_command :: "('s, 'n) texsoup \<Rightarrow> 's \<Rightarrow> 'n \<Rightarrow> error + latex_command" where
  "soup_to_command L soup cmd =
     (let brace_args = filter (\<lambda>arg. node_name L arg = py ''BraceGroup'') (node_args L soup cmd);
          bracket_args = filter (\<lambda>arg. node_name L arg = py ''BracketGroup'')
                           (node_args L soup cmd)
      in if length brace_args \<noteq> 2 \<or> length bracket_args > 2
         then Inl (MalformedNewcommand (node_str L soup cmd))
         else
           and_then (if length bracket_args = 0 then Inr 0
                     else and_then (first_item (node_contents L soup (bracket_args ! 0))) int_item)
             (\<lambda>num_args.
           and_then (if length bracket_args \<le> 1 then Inr None
                     else and_then (first_item (node_contents L soup (bracket_args ! 1)))
                            (\<lambda>x. Inr (Some (item_str L soup x))))
             (\<lambda>optional_arg.
           TextCommand_init (CSeq (node_contents L soup (brace_args ! 1)))
             num_args optional_arg False)))"

fun add_commands ::
  "('s, 'n) texsoup \<Rightarrow> 'n list \<Rightarrow> 's \<times> (pystr \<times> latex_command) list \<Rightarrow>
     error + ('s \<times> (pystr \<times> latex_command) list)" where
  "add_commands L [] st = Inr st"
| "add_commands L (new_command # rest) (soup, context_commands) =
     and_then (soup_to_command L soup new_command) (\<lambda>c.
       add_commands L rest
         (node_remove L soup (node_parent L soup new_command) new_command,
          dict_set context_commands (node_name L new_command) c))"

section \<open>The rewrite engine\<close>

text \<open>
  \<open>arg_data\<close>: each argument group as the string of its elements joined by a
  space (the empty string for an empty group).
\<close>

definition arg_data :: "('s, 'n) texsoup \<Rightarrow> 's \<Rightarrow> 'n \<Rightarrow> pystr list" where
  "arg_data L soup cmd =
     map (\<lambda>arg. join [32] (map (item_str L soup) (node_contents L soup arg)))
       (node_args L soup cmd)"

text \<open>
  The body of \<open>for cmd in soup.find_all(command_keys)\<close>, over the nodes the query
  gave. \<open>last_stage\<close> is the variable of the source.
\<close>

fun process_level ::
  "('s, 'n) texsoup \<Rightarrow> config \<Rightarrow> (pystr \<times> latex_command) list \<Rightarrow> int \<Rightarrow> 'n list \<Rightarrow> int \<Rightarrow>
     's \<times> shared_context \<Rightarrow> error + (int \<times> 's \<times> shared_context)" where
  "process_level L cfg context_commands p [] last_stage st = Inr (last_stage, st)"
| "process_level L cfg context_commands p (cmd # cmds) last_stage st =
     (case map_of context_commands (node_name L cmd) of
        None \<Rightarrow> Inl (PyKeyError (node_name L cmd))
      | Some callback \<Rightarrow>
          if \<not> recursion_ready L (fst st) callback cmd context_commands
          then process_level L cfg context_commands p cmds last_stage st
          else
            (case invoke L cfg callback st cmd (arg_data L (fst st) cmd) of
               Inl e \<Rightarrow> Inl e
             | Inr st1 \<Rightarrow>
                 if int (length (soup_str L (fst st1))) > character_limit cfg
                 then Inl (SizeLimitExceeded (character_limit cfg)
                             (int (length (soup_str L (fst st1)))))
                 else process_level L cfg context_commands p cmds p st1))"

text \<open>The keys of the table whose command has the priority \<open>p\<close>, in table order.\<close>

definition command_keys :: "(pystr \<times> latex_command) list \<Rightarrow> int \<Rightarrow> pystr list" where
  "command_keys context_commands p =
     filter (\<lambda>c. map_option get_priority (map_of context_commands c) = Some p)
       (map fst context_commands)"

text \<open>The body of \<open>for priority in all_priorities\<close>, with its \<open>break\<close>.\<close>

fun scan_priorities ::
  "('s, 'n) texsoup \<Rightarrow> config \<Rightarrow> (pystr \<times> latex_command) list \<Rightarrow> int list \<Rightarrow> int \<Rightarrow>
     's \<times> shared_context \<Rightarrow> error + (int \<times> 's \<times> shared_context)" where
  "scan_priorities L cfg context_commands [] last_stage st = Inr (last_stage, st)"
| "scan_priorities L cfg context_commands (p # ps) last_stage st =
     (case process_level L cfg context_commands p
             (find_all L (fst st) (command_keys context_commands p))
             last_stage st of
        Inl e \<Rightarrow> Inl e
      | Inr (last_stage1, st1) \<Rightarrow>
          if last_stage1 = p then Inr (last_stage1, st1)
          else scan_priorities L cfg context_commands ps last_stage1 st1)"

text \<open>
  \<open>for i in range(nesting_limit)\<close> with its \<open>else\<close>. The first numeric argument is the
  number of iterations still allowed, the second the number already run; the
  result carries the number of iterations run when the loop ended.
\<close>

fun nesting_loop ::
  "('s, 'n) texsoup \<Rightarrow> config \<Rightarrow> (pystr \<times> latex_command) list \<Rightarrow> int list \<Rightarrow> nat \<Rightarrow> nat \<Rightarrow>
     's \<times> shared_context \<Rightarrow> (error + 's \<times> shared_context) \<times> nat" where
  "nesting_loop L cfg context_commands all_priorities 0 i st =
     (Inl (NestingLimitExceeded (command_nesting_limit cfg)), i)"
| "nesting_loop L cfg context_commands all_priorities (Suc k) i st =
     (case scan_priorities L cfg context_commands all_priorities priority_cap st of
        Inl e \<Rightarrow> (Inl e, Suc i)
      | Inr (last_stage, st1) \<Rightarrow>
          if last_stage = priority_cap then (Inr st1, Suc i)
          else nesting_loop L cfg context_commands all_priorities k (Suc i) st1)"

definition all_priorities_of :: "(pystr \<times> latex_command) list \<Rightarrow> int list" where
  "all_priorities_of context_commands =
     rev (sort (remdups (map (\<lambda>kv. get_priority (snd kv)) context_commands)))"

definition fresh_context :: "(pystr \<times> latex_command) list \<Rightarrow> shared_context" where
  "fresh_context context_commands =
     \<lparr>iterators = [(py ''problem'', 0), (py ''letter'', 0)],
      commands = context_commands, globals = []\<rparr>"

definition convert_latex ::
  "('s, 'n) texsoup \<Rightarrow> config \<Rightarrow> (pystr \<times> latex_command) list \<Rightarrow> pystr \<Rightarrow>
     error + ('s \<times> shared_context)" where
  "convert_latex L cfg context_commands latext =
     (case TexSoup L latext of
        None \<Rightarrow> Inl ParserError
      | Some soup \<Rightarrow>
          and_then (add_commands L
                      (find_all L soup [py ''newcommand''] @ find_all L soup [py ''renewcommand''])
                      (soup, context_commands)) (\<lambda>(soup1, commands1).
            fst (nesting_loop L cfg commands1 (all_priorities_of commands1)
                   (nat (command_nesting_limit cfg)) 0
                   (soup1, fresh_context commands1))))"

text \<open>
  The state after \<open>k\<close> outer iterations none of which raised or reached the
  sentinel \<open>last_stage == priority_cap\<close>; \<open>None\<close> when one of them did.
\<close>

fun run_unconverged ::
  "('s, 'n) texsoup \<Rightarrow> config \<Rightarrow> (pystr \<times> latex_command) list \<Rightarrow> int list \<Rightarrow> nat \<Rightarrow>
     's \<times> shared_context \<Rightarrow> ('s \<times> shared_context) option" where
  "run_unconverged L cfg context_commands all_priorities 0 st = Some st"
| "run_unconverged L cfg context_commands all_priorities (Suc k) st =
     (case scan_priorities L cfg context_commands all_priorities priority_cap st of
        Inl e \<Rightarrow> None
      | Inr (last_stage, st1) \<Rightarrow>
          if last_stage = priority_cap then None
          else run_unconverged L cfg context_commands all_priorities k st1)"

section \<open>The converter\<close>

subsection \<open>Preprocessing\<close>

text \<open>
  \<open>Replacements\<close>, in the order of the dictionary; the dashes are U+2014 and U+2013,
  a backslash is code point 92 and a newline code point 10.
\<close>

definition Replacements :: "(pystr \<times> pystr) list" where
  "Replacements =
     [([123, 92] @ py ''it'', [92] @ py ''textit{''),
      ([123, 92] @ py ''bf'', [92] @ py ''textbf{''),
      (py ''<<'', py ''&laquo;''),
      (py ''>>'', py ''&raquo;''),
      (py ''----'', [8212]),
      (py ''---'', [8212]),
      (py ''--'', [8211]),
      ([92, 92], [10, 10]),
      ([92, 32], [32]),
      (py ''~'', [32])]"

text \<open>
  \<open>comment_regex.sub("\\1", latext)\<close>: a \<open>%\<close> at the start of a line, or after a code
  point other than a backslash, is dropped with the rest of its line and the newline
  that ends it; the code point before it stays. A \<open>%\<close> with no newline after it is
  kept. \<open>CScan b\<close> scans with \<open>b\<close> telling whether the position starts a line,
  \<open>CSkip\<close> drops the rest of a matched comment.
\<close>

datatype cmode = CScan bool | CSkip

fun strip_comments_from :: "cmode \<Rightarrow> pystr \<Rightarrow> pystr" where
  "strip_comments_from m [] = []"
| "strip_comments_from CSkip (c # cs) =
     (if c = 10 then strip_comments_from (CScan True) cs else strip_comments_from CSkip cs)"
| "strip_comments_from (CScan line_start) (c # cs) =
     (if line_start \<and> c = 37 \<and> 10 \<in> set cs then strip_comments_from CSkip cs
      else if c \<noteq> 92 \<and> (case cs of [] \<Rightarrow> False | h # rest \<Rightarrow> h = 37 \<and> 10 \<in> set rest)
        then c # strip_comments_from CSkip cs
      else c # strip_comments_from (CScan (c = 10)) cs)"

definition strip_comments :: "pystr \<Rightarrow> pystr" where
  "strip_comments latext = strip_comments_from (CScan True) latext"

definition preprocess :: "pystr \<Rightarrow> pystr" where
  "preprocess latext =
     strip_comments (foldl (\<lambda>t (v, replacement). replace t v replacement) latext Replacements)"

subsection \<open>The built-in commands\<close>

definition BuiltinCommands :: "(pystr \<times> latex_command) list" where
  "BuiltinCommands =
     [(py ''it'', command (ErrorCommand (py ''textit''))),
      (py ''bf'', command (ErrorCommand (py ''textbf''))),
      (py ''HUGE'', TextCommand_str (py ''# #1'') 1 None False),
      (py ''Huge'', TextCommand_str (py ''# #1'') 1 None False),
      (py ''huge'', TextCommand_str (py ''## #1'') 1 None False),
      (py ''LARGE'', TextCommand_str (py ''## #1'') 1 None False),
      (py ''Large'', TextCommand_str (py ''### #1'') 1 None False),
      (py ''large'', TextCommand_str (py ''### #1'') 1 None False),
      (py ''textit'', TextCommand_str (py ''*#1*'') 1 None True),
      (py ''textbf'', TextCommand_str (py ''**#1**'') 1 None True),
      (py ''texttt'', TextCommand_str ([96] @ py ''#1'' @ [96]) 1 None True),
      (py ''ldots'', TextCommand_str (py ''...'') 0 None False),
      (py ''z'', command (ProblemMacro (py ''%(z)i%(ext)s.'') (Some 0) (Some 1) True
                            (py ''%(z)i''))),
      (py ''zcirc'', command (ProblemMacro (py ''%(z)i$^'' @ [92] @ py ''circ$%(ext)s.'')
                                (Some 0) (Some 1) True (py ''%(z)i<sup>o</sup>''))),
      (py ''leth'', command (ProblemMacro (py ''%(leth)s%(ext)s)'') (Some 1) None True
                               (py ''%(z)i%(leth)s''))),
      (py ''lett'', command (ProblemMacro (py ''%(leth)s%(ext)s)'') (Some 1) None True
                               (py ''%(z)i%(leth)s''))),
      (py ''lethcirc'', command (ProblemMacro (py ''%(leth)s$^'' @ [92] @ py ''circ$%(ext)s)'')
                                   (Some 1) None True (py ''%(z)i%(leth)s<sup>o</sup>''))),
      (py ''lettcirc'', command (ProblemMacro (py ''%(leth)s$^'' @ [92] @ py ''circ$%(ext)s)'')
                                   (Some 1) None True (py ''%(z)i%(leth)s<sup>o</sup>''))),
      (py ''zncirc'', command (ProblemMacro
                                 (py ''%(z)i.%(leth)s$^'' @ [92] @ py ''circ$%(ext)s)'')
                                 (Some 0) (Some 1) True (py ''%(z)i%(leth)s<sup>o</sup>''))),
      (py ''zn'', command (ProblemMacro (py ''%(z)i.%(leth)s%(ext)s)'') (Some 0) (Some 1) True
                             (py ''%(z)i%(leth)s''))),
      (py ''zecirc'', command (ProblemMacro (py ''%(z)i$^'' @ [92] @ py ''circ$%(ext)s.'')
                                 (Some (- 1)) (Some 1) False [])),
      (py ''ze'', command (ProblemMacro (py ''%(z)i%(ext)s.'') (Some (- 1)) (Some 1) False [])),
      (py ''sheetid'', command (GlobalConfig (py ''sheet_id'') True)),
      (py ''sheetname'', command (GlobalConfig (py ''sheet_name'') True)),
      (py ''center'', TextEnv_str (py ''#1'') 1 (py ''text'') None False),
      (py ''centerline'', TextCommand_str (py ''#1'') 1 None False),
      (py ''tikzpicture'', TextEnv_str (py ''#1'') 1 (py ''tikz'') None False),
      (py ''itemize'', command (ItemExtractor (py ''* %(item)s''))),
      (py ''medskip'', TextCommand_str [10, 10] 0 None False),
      (py ''vspace'', TextCommand_str [] 1 None False),
      (py ''vspace*'', TextCommand_str [] 1 None False),
      (py ''hspace'', TextCommand_str [] 1 None False),
      (py ''hspace*'', TextCommand_str [] 1 None False),
      (py ''noindent'', TextCommand_str [] 0 None False),
      (py ''newpage'', TextCommand_str [] 0 None False)]"

subsection \<open>The document\<close>

text \<open>
  Modelled from the spec: \<open>pyconduit.models.latex\<close> (LatexDocument, LatexObject) is
  not among the sources. A Document holds the ordered sequence of Document Objects,
  the original raw text and the two global attributes; a Document Object is the
  validated projection of a flushed attribute bag, so \<open>LatexObject.parse_obj\<close> is a
  parameter \<open>parse_obj\<close> that gives \<open>None\<close> when the validation fails.
\<close>

record 'o latex_document =
  objects :: "'o list"
  orig_doc :: pystr
  sheet_id :: "pystr option"
  sheet_name :: "pystr option"

fun collect_excess ::
  "(metadata_kwargs \<Rightarrow> 'o option) \<Rightarrow> nat \<Rightarrow> 'o list \<Rightarrow> metadata_node \<Rightarrow> error + 'o list" where
  "collect_excess parse_obj 0 objs current_metadata = Inl ExcessStackingLimit"
| "collect_excess parse_obj (Suc k) objs current_metadata =
     (case collect current_metadata None of
        ((None, excess_text), current1) \<Rightarrow> Inr objs
      | ((Some new_node, excess_text), current1) \<Rightarrow>
          (case parse_obj new_node of
             None \<Rightarrow> Inl ValidationError
           | Some ob \<Rightarrow>
               collect_excess parse_obj k (objs @ [ob])
                 (if excess_text \<noteq> []
                  then snd (collect (MetadataNode (py ''text'') no_kwargs) (Some excess_text))
                  else MetadataNode (py ''text'') no_kwargs)))"

text \<open>The loop \<open>for node in soup.contents\<close> of \<open>build_latex\<close>.\<close>

fun fold_nodes ::
  "('s, 'n) texsoup \<Rightarrow> (metadata_kwargs \<Rightarrow> 'o option) \<Rightarrow> config \<Rightarrow> 's \<Rightarrow> 'n item list \<Rightarrow>
     'o list \<times> metadata_node \<Rightarrow> error + ('o list \<times> metadata_node)" where
  "fold_nodes L parse_obj cfg soup [] st = Inr st"
| "fold_nodes L parse_obj cfg soup (node # rest) st =
     and_then (case node of
                 INode n \<Rightarrow> (case node_name L n of
                                [] \<Rightarrow> Inl PyIndexError
                              | c # cs \<Rightarrow> Inr (c = 36))
               | _ \<Rightarrow> Inr False) (\<lambda>is_math.
       if (case node of IStr t \<Rightarrow> True | _ \<Rightarrow> False) \<or> is_math then
         (case collect (snd st) (Some (item_str L soup node)) of
            ((None, excess_text), current1) \<Rightarrow>
              fold_nodes L parse_obj cfg soup rest (fst st, current1)
          | ((Some new_node, excess_text), current1) \<Rightarrow>
              (case parse_obj new_node of
                 None \<Rightarrow> Inl ValidationError
               | Some ob \<Rightarrow>
                   fold_nodes L parse_obj cfg soup rest
                     (fst st @ [ob], MetadataNode (py ''text'') no_kwargs)))
       else
         (case node of
            IMeta m \<Rightarrow>
              and_then (collect_excess parse_obj (nat (excess_stacking cfg)) (fst st) (snd st))
                (\<lambda>objs1. fold_nodes L parse_obj cfg soup rest (objs1, m))
          | INode n \<Rightarrow>
              if node_contents L soup n = [IStr []]
              then fold_nodes L parse_obj cfg soup rest st
              else Inl (UnknownNode (node_str L soup n))
          | IStr t \<Rightarrow> Inl (UnknownNode t)))"

definition build_latex ::
  "('s, 'n) texsoup \<Rightarrow> (metadata_kwargs \<Rightarrow> 'o option) \<Rightarrow> config \<Rightarrow> pystr \<Rightarrow>
     error + 'o latex_document" where
  "build_latex L parse_obj cfg latext =
     (case convert_latex L cfg BuiltinCommands (preprocess latext) of
        Inl e \<Rightarrow> Inl e
      | Inr (soup, ctx) \<Rightarrow>
          (case map_of (globals ctx) (py ''sheet_id'') of
             None \<Rightarrow> Inl (MissingSheetId (no_sheet_id cfg))
           | Some sid \<Rightarrow>
               if sid = [] then Inl (MissingSheetId (no_sheet_id cfg))
               else
                 (case map_of (globals ctx) (py ''sheet_name'') of
                    None \<Rightarrow> Inl (MissingSheetName (no_sheet_name cfg))
                  | Some sname \<Rightarrow>
                      if sname = [] then Inl (MissingSheetName (no_sheet_name cfg))
                      else
                        and_then (fold_nodes L parse_obj cfg soup (soup_contents L soup)
                                    ([], MetadataNode (py ''text'') no_kwargs))
                          (\<lambda>(objs, current_metadata).
                        and_then (collect_excess parse_obj (nat (excess_stacking cfg)) objs
                                    current_metadata)
                          (\<lambda>objs1. Inr \<lparr>objects = objs1, orig_doc = latext,
                                         sheet_id = Some sid, sheet_name = Some sname\<rparr>)))))"

section \<open>Invocations that never occur\<close>

text \<open>
  What a command returns as its replacement holds text and metadata nodes only.
  A property \<open>I\<close> of trees is kept by the rewriting when it survives the two ways
  in which \<open>invoke\<close> changes the tree: splicing such a replacement in place of a
  node, and emptying the contents of a node (\<open>ItemExtractor\<close>). An invocation of
  the command \<open>name\<close> is never found when no query on a tree with the property
  gives a node of that name.
\<close>

definition node_free :: "'n item list \<Rightarrow> bool" where
  "node_free r = list_all (\<lambda>x. case x of INode n \<Rightarrow> False | _ \<Rightarrow> True) r"

definition rewrite_invariant :: "('s, 'n) texsoup \<Rightarrow> ('s \<Rightarrow> bool) \<Rightarrow> bool" where
  "rewrite_invariant L I \<longleftrightarrow>
     (\<forall>s n r. I s \<and> node_free r \<longrightarrow> I (splice L s n r))
     \<and> (\<forall>s n. I s \<longrightarrow> I (set_contents L s n []))"

definition never_found :: "('s, 'n) texsoup \<Rightarrow> ('s \<Rightarrow> bool) \<Rightarrow> pystr \<Rightarrow> bool" where
  "never_found L I name \<longleftrightarrow>
     (\<forall>s ks n. I s \<and> n \<in> set (find_all L s ks) \<longrightarrow> node_name L n \<noteq> name)"

text \<open>
  The table \<open>tab\<close> has no command that stores under \<open>key\<close> other than the one
  registered as \<open>name\<close>.
\<close>

definition only_command_for :: "(pystr \<times> latex_command) list \<Rightarrow> pystr \<Rightarrow> pystr \<Rightarrow> bool" where
  "only_command_for tab key name \<longleftrightarrow>
     (\<forall>nm cb flag. map_of tab nm = Some cb \<and> kind cb = GlobalConfig key flag \<longrightarrow> nm = name)"

section \<open>A small tree for concrete runs\<close>

text \<open>
  An implementation of the parser interface on a flat document: the tree is the
  list of its top-level items, a node is its name with its argument groups and its
  contents, every node hangs off the root (which has no argument groups), and the
  parser is a table from the texts it knows to their trees.
\<close>

datatype tnode = TNode pystr "tnode list" "tnode item list"

fun tnode_name :: "tnode \<Rightarrow> pystr" where
  "tnode_name (TNode name args cont) = name"

fun tnode_args :: "tnode \<Rightarrow> tnode list" where
  "tnode_args (TNode name args cont) = args"

fun tnode_contents :: "tnode \<Rightarrow> tnode item list" where
  "tnode_contents (TNode name args cont) = cont"

definition nodes_of :: "tnode item list \<Rightarrow> tnode list" where
  "nodes_of xs = concat (map (\<lambda>x. case x of INode n \<Rightarrow> [n] | _ \<Rightarrow> []) xs)"

text \<open>
  \<open>replace\<close> and \<open>remove\<close> act on one child: the first item equal to the node.
  A metadata node is serialized as the default \<open>repr\<close> of a Python object.
\<close>

fun replace_first :: "'a \<Rightarrow> 'a list \<Rightarrow> 'a list \<Rightarrow> 'a list" where
  "replace_first old new [] = []"
| "replace_first old new (x # xs) =
     (if x = old then new @ xs else x # replace_first old new xs)"

definition metadata_repr :: "metadata_node \<Rightarrow> pystr" where
  "metadata_repr m = py ''<pyconduit.shared.latex.core.MetadataNode object at 0x7f3a5c0d2e50>''"

definition flat_soup :: "(pystr \<times> tnode item list) list \<Rightarrow> (tnode item list, tnode) texsoup" where
  "flat_soup docs =
     \<lparr>TexSoup = map_of docs,
      find_all = (\<lambda>soup names. filter (\<lambda>n. tnode_name n \<in> set names) (nodes_of soup)),
      node_name = tnode_name,
      node_args = (\<lambda>soup. tnode_args),
      node_contents = (\<lambda>soup. tnode_contents),
      node_children = (\<lambda>soup n. nodes_of (tnode_contents n)),
      node_parent = (\<lambda>soup n. TNode (py ''[tex]'') [] soup),
      node_replace = (\<lambda>soup parent old new. replace_first (INode old) new soup),
      node_remove = (\<lambda>soup parent n. replace_first (INode n) [] soup),
      set_contents = (\<lambda>soup n cont. soup),
      is_TexCmd = (\<lambda>n. True),
      node_truthy = (\<lambda>soup n. True),
      node_str = (\<lambda>soup n. 92 # tnode_name n),
      soup_str = (\<lambda>soup. concat (map (\<lambda>x. case x of IStr t \<Rightarrow> t
                                              | INode n \<Rightarrow> 92 # tnode_name n
                                              | IMeta m \<Rightarrow> metadata_repr m) soup)),
      soup_contents = (\<lambda>soup. soup),
      metadata_str = metadata_repr\<rparr>"

definition sample_commands :: "(pystr \<times> latex_command) list" where
  "sample_commands =
     [(py ''ldots'', TextCommand_str (py ''...'') 0 None False),
      (py ''z'', command (ProblemMacro (py ''%(z)i%(ext)s.'') (Some 0) (Some 1) True
                            (py ''%(z)i'')))]"

definition sample_config :: config where
  "sample_config =
     \<lparr>character_limit = 1000, command_nesting_limit = 5, excess_stacking = 10,
      first_problem_character = 97, problem_skips = [],
      no_sheet_id = py ''no sheet id'', no_sheet_name = py ''no sheet name''\<rparr>"

section \<open>Evaluation rules\<close>

declare digits_of.simps [simp del]

lemma digits_of_numeral [simp]:
  "digits_of (numeral k) =
     (if (numeral k :: nat) < 10 then [48 + numeral k]
      else digits_of (numeral k div 10) @ [48 + numeral k mod 10])"
  by (rule digits_of.simps)

lemma digits_of_small [simp]: "digits_of 0 = [48]" "digits_of (Suc 0) = [49]"
  by (simp_all add: digits_of.simps)

lemma and_then_simps [simp]:
  "and_then (Inl e) f = Inl e"
  "and_then (Inr x) f = f x"
  by (simp_all add: and_then_def)

section \<open>Arity validation\<close>

text \<open>
  C4. \<open>TextCommand("#1-#2", 2)\<close> has no optional argument. Applied to one argument,
  and applied to three, it raises the invalid-argument-count error (expected 2, got
  1 or 3), whatever the arguments are; applied to \<open>("a", "b")\<close> it returns
  \<open>"a-b"\<close> and leaves the tree and the context as they were. This holds for every
  parser implementation, configuration, tree, context and node.
\<close>

theorem TextCommand_arity:
  "apply_command L cfg (TextCommand_str (py ''#1-#2'') 2 None False) (soup, ctx) node [a]
     = Inl (InvalidArgumentCount (node_name L node) 2 1)
   \<and> apply_command L cfg (TextCommand_str (py ''#1-#2'') 2 None False) (soup, ctx) node [a, b, c]
     = Inl (InvalidArgumentCount (node_name L node) 2 3)
   \<and> apply_command L cfg (TextCommand_str (py ''#1-#2'') 2 None False) (soup, ctx) node
       [py ''a'', py ''b'']
     = Inr ([IStr (py ''a-b'')], soup, ctx)"
  by (simp add: TextCommand_str_def apply_command_def command_def TextCommand_apply_def
      placeholder_def is_digit_def str_int_def format_py_def index_of_digits_def)

section \<open>Paragraph splitting\<close>

lemma split_once_Some_eq:
  "split_once sep s = Some (a, b) \<Longrightarrow> s = a @ sep @ b"
proof (induction s arbitrary: a)
  case Nil
  then show ?case by simp
next
  case (Cons c cs)
  show ?case
  proof (cases "take (length sep) (c # cs) = sep")
    case True
    with Cons.prems have "a = []" "b = drop (length sep) (c # cs)" by auto
    with True show ?thesis
      by (metis append_Nil append_take_drop_id)
  next
    case False
    with Cons.prems obtain a' where "split_once sep cs = Some (a', b)" "a = c # a'"
      by (auto split: prod.splits)
    with Cons.IH show ?thesis by simp
  qed
qed

lemma split_once_occurs:
  "sep \<noteq> [] \<Longrightarrow> split_once sep (u @ sep @ v) \<noteq> None"
proof (induction u)
  case Nil
  then show ?case by (cases sep) auto
next
  case (Cons a u)
  then show ?case by auto
qed

lemma split_once_None_iff:
  "sep \<noteq> [] \<Longrightarrow> split_once sep s = None \<longleftrightarrow> (\<nexists>u v. s = u @ sep @ v)"
  using split_once_occurs split_once_Some_eq
  by (metis not_None_eq surj_pair)

lemma split_once_first:
  "\<nexists>u v. pre @ [x] = u @ [x, x] @ v \<Longrightarrow>
     split_once [x, x] (pre @ [x, x] @ post) = Some (pre, post)"
proof (induction pre)
  case Nil
  then show ?case by simp
next
  case (Cons a pre)
  have no: "\<nexists>u v. pre @ [x] = u @ [x, x] @ v"
  proof
    assume "\<exists>u v. pre @ [x] = u @ [x, x] @ v"
    then obtain u v where "pre @ [x] = u @ [x, x] @ v" by blast
    then have "(a # pre) @ [x] = (a # u) @ [x, x] @ v" by simp
    with Cons.prems show False by blast
  qed
  have "take 2 ((a # pre) @ [x, x] @ post) \<noteq> [x, x]"
  proof
    assume t: "take 2 ((a # pre) @ [x, x] @ post) = [x, x]"
    then have ax: "a = x" and hx: "take 1 (pre @ [x, x] @ post) = [x]"
      by (simp_all add: numeral_2_eq_2)
    from hx obtain w where "pre @ [x] = x # w" by (cases pre) auto
    with ax have "(a # pre) @ [x] = [] @ [x, x] @ w" by simp
    with Cons.prems show False by blast
  qed
  with Cons.IH [OF no] show ?case by simp
qed

text \<open>
  C5. Flushing (\<open>collect\<close> with \<open>None\<close>) a text-collecting node whose buffer is
  \<open>pre\<close>, a double newline, \<open>post\<close>, where that double newline is the first one of
  the buffer (none starts inside \<open>pre\<close>), yields the node's attribute bag with the
  text \<open>pre\<close>, and the excess text \<open>post\<close>: the buffer is split at the first double
  newline. The instance below is the buffer \<open>"first\n\nsecond"\<close>, flushed to the text
  \<open>"first"\<close> and the excess \<open>"second"\<close>.
\<close>

theorem collect_paragraph_split:
  assumes "\<nexists>u v. pre @ [10] = u @ [10, 10] @ v"
  shows "collect \<lparr>collect_text = True, kwargs = kw\<lparr>kw_text := Some (pre @ [10, 10] @ post)\<rparr>\<rparr> None
         = ((Some (kw\<lparr>kw_text := Some pre\<rparr>), post),
            \<lparr>collect_text = True, kwargs = kw\<lparr>kw_text := Some pre\<rparr>\<rparr>)"
  using split_once_first [OF assms, of post]
  by (simp add: collect_def)

theorem collect_paragraph_split_witness:
  "collect (MetadataNode (py ''text'')
      (no_kwargs\<lparr>kw_text := Some (py ''first'' @ [10, 10] @ py ''second'')\<rparr>)) None
   = ((Some (no_kwargs\<lparr>kw_text := Some (py ''first''), kw_cls := py ''text''\<rparr>), py ''second''),
      MetadataNode (py ''text'') (no_kwargs\<lparr>kw_text := Some (py ''first'')\<rparr>))"
proof -
  have "split_once [10, 10] (py ''first'' @ [10]) = None" by simp
  then have h: "\<nexists>u v. py ''first'' @ [10] = u @ [10, 10] @ v"
    using split_once_None_iff [of "[10, 10]" "py ''first'' @ [10]"] by simp
  show ?thesis
    using collect_paragraph_split [OF h, where kw = "no_kwargs\<lparr>kw_cls := py ''text''\<rparr>"
        and post = "py ''second''"]
    by (simp add: MetadataNode_def no_kwargs_def)
qed

section \<open>Problem numbering\<close>

lemma map_of_dict_set: "map_of (dict_set d k v) = (map_of d)(k \<mapsto> v)"
  by (induction d k v rule: dict_set.induct) auto

text \<open>
  C6. \<open>ProblemMacro(problem=1, letter=0, fmt="%(z)i%(ext)s.")\<close> applied with no
  extra argument to a fresh context (both iterators 0) sets the problem counter to 1,
  leaves the letter counter 0, and returns one problem metadata node whose numbering
  string \<open>num\<close> is \<open>"1."\<close>. The configuration must let \<open>chr\<close> succeed on the first
  letter moved by the skipped letters that precede it (Python raises ValueError
  beyond U+10FFFF). More generally \<open>update_iterator\<close> on a counter that holds \<open>old\<close>
  leaves \<open>old + v\<close> for a positive \<open>v\<close> and assigns \<open>v\<close> itself otherwise, touching
  nothing else of the context.
\<close>

theorem ProblemMacro_numbering:
  assumes "int (first_problem_character cfg)
             + int (length (filter (\<lambda>i. i < 0) (problem_skip_indices cfg))) \<le> 1114111"
    and "map_of (iterators ctx0) it_name = Some old"
  shows "apply_command L cfg (command (ProblemMacro (py ''%(z)i%(ext)s.'') (Some 0) (Some 1) True []))
           (soup, \<lparr>iterators = [(py ''problem'', 0), (py ''letter'', 0)],
                   commands = tab, globals = g\<rparr>) node []
         = Inr ([IMeta (MetadataNode (py ''problem'')
                          (no_kwargs\<lparr>kw_num := Some (py ''1.''),
                                     kw_conduit_include := Some True,
                                     kw_conduit_num := Some []\<rparr>))],
                soup, \<lparr>iterators = [(py ''problem'', 1), (py ''letter'', 0)],
                        commands = tab, globals = g\<rparr>)
       \<and> (\<exists>ctx1. update_iterator ctx0 it_name (Some v) = Inr ctx1
              \<and> get_iterator ctx1 it_name = Inr (if v > 0 then old + v else v)
              \<and> commands ctx1 = commands ctx0 \<and> globals ctx1 = globals ctx0)"
proof (intro conjI)
  show "apply_command L cfg (command (ProblemMacro (py ''%(z)i%(ext)s.'') (Some 0) (Some 1) True []))
           (soup, \<lparr>iterators = [(py ''problem'', 0), (py ''letter'', 0)],
                   commands = tab, globals = g\<rparr>) node []
         = Inr ([IMeta (MetadataNode (py ''problem'')
                          (no_kwargs\<lparr>kw_num := Some (py ''1.''),
                                     kw_conduit_include := Some True,
                                     kw_conduit_num := Some []\<rparr>))],
                soup, \<lparr>iterators = [(py ''problem'', 1), (py ''letter'', 0)],
                        commands = tab, globals = g\<rparr>)"
    using assms(1)
    by (simp add: apply_command_def command_def ProblemMacro_apply_def update_iterator_def
        get_iterator_def chr_py_def percent_format_def str_int_def str_val_def replace_def)
  show "\<exists>ctx1. update_iterator ctx0 it_name (Some v) = Inr ctx1
           \<and> get_iterator ctx1 it_name = Inr (if v > 0 then old + v else v)
           \<and> commands ctx1 = commands ctx0 \<and> globals ctx1 = globals ctx0"
    using assms(2)
    by (simp add: update_iterator_def get_iterator_def map_of_dict_set)
qed

theorem ProblemMacro_numbering_witness:
  "apply_command (flat_soup []) sample_config
     (command (ProblemMacro (py ''%(z)i%(ext)s.'') (Some 0) (Some 1) True []))
     ([], \<lparr>iterators = [(py ''problem'', 0), (py ''letter'', 0)], commands = [], globals = []\<rparr>)
     (TNode (py ''z'') [] []) []
   = Inr ([IMeta (MetadataNode (py ''problem'')
                    (no_kwargs\<lparr>kw_num := Some (py ''1.''), kw_conduit_include := Some True,
                               kw_conduit_num := Some []\<rparr>))],
          [], \<lparr>iterators = [(py ''problem'', 1), (py ''letter'', 0)], commands = [], globals = []\<rparr>)
   \<and> (\<exists>ctx1. update_iterator
                \<lparr>iterators = [(py ''problem'', 3), (py ''letter'', 2)], commands = [], globals = []\<rparr>
                (py ''letter'') (Some 0) = Inr ctx1
              \<and> get_iterator ctx1 (py ''letter'') = Inr 0)"
proof -
  have h1: "int (first_problem_character sample_config)
             + int (length (filter (\<lambda>i. i < 0) (problem_skip_indices sample_config))) \<le> 1114111"
    by (simp add: sample_config_def problem_skip_indices_def)
  have h2: "map_of (iterators \<lparr>iterators = [(py ''problem'', 3), (py ''letter'', 2)],
                               commands = [], globals = []\<rparr>) (py ''letter'') = Some 2"
    by simp
  show ?thesis
    using ProblemMacro_numbering [OF h1 h2, where v = 0 and L = "flat_soup []"
        and soup = "[]" and tab = "[]" and g = "[]" and node = "TNode (py ''z'') [] []"]
    by auto
qed

section \<open>The rewrite loop\<close>

lemmas eval_defs = flat_soup_def metadata_repr_def nodes_of_def sample_config_def sample_commands_def
  TextCommand_str_def TextEnv_str_def command_def get_priority_def recursion_ready_def
  TextCommand_recursion_ready_def invoke_def apply_command_def TextCommand_apply_def
  format_py_def splice_def ProblemMacro_apply_def update_iterator_def get_iterator_def
  chr_py_def problem_skip_indices_def percent_format_def str_int_def str_val_def replace_def
  priority_cap_def MetadataNode_def no_kwargs_def fresh_context_def item_str_def
  arg_data_def command_keys_def GlobalConfig_apply_def strip_def is_space_def
  placeholder_def is_digit_def index_of_digits_def

lemma process_level_result:
  "process_level L cfg tab p cmds ls st = Inr (ls1, st1) \<Longrightarrow>
     (ls1 = ls \<and> st1 = st)
     \<or> (ls1 = p \<and> int (length (soup_str L (fst st1))) \<le> character_limit cfg)"
proof (induction cmds arbitrary: ls st)
  case Nil
  then show ?case by simp
next
  case (Cons cmd cmds)
  from Cons.prems obtain callback where cb: "map_of tab (node_name L cmd) = Some callback"
    by (auto split: option.splits)
  show ?case
  proof (cases "recursion_ready L (fst st) callback cmd tab")
    case False
    with Cons.prems cb have "process_level L cfg tab p cmds ls st = Inr (ls1, st1)" by simp
    then show ?thesis by (rule Cons.IH)
  next
    case True
    with Cons.prems cb obtain st2 where
      small: "\<not> int (length (soup_str L (fst st2))) > character_limit cfg"
      and rest: "process_level L cfg tab p cmds p st2 = Inr (ls1, st1)"
      by (auto split: sum.splits if_splits)
    from Cons.IH [OF rest] small show ?thesis by auto
  qed
qed

text \<open>
  C1 (amended). The source tracks in \<open>last_stage\<close> whether the current priority level
  expanded anything. When the level \<open>p\<close> (other than the sentinel value 10000) ends
  with \<open>last_stage\<close> still at the sentinel, it expanded nothing, the state is
  unchanged, and the scan goes on with the lower priorities of the same outer
  iteration. When the level expanded something, \<open>last_stage\<close> is \<open>p\<close>, the scan of the
  lower priorities is cut off (the \<open>break\<close>), and the outer loop, if it has an
  iteration left, runs the whole priority list again from the top.
\<close>

theorem priority_scan_break:
  assumes "process_level L cfg tab p (find_all L (fst st) (command_keys tab p)) priority_cap st
             = Inr (ls, st1)"
    and "p \<noteq> priority_cap"
  shows "(ls = priority_cap \<longrightarrow> st1 = st
            \<and> scan_priorities L cfg tab (p # ps) priority_cap st
                = scan_priorities L cfg tab ps priority_cap st)
       \<and> (ls \<noteq> priority_cap \<longrightarrow> ls = p
            \<and> scan_priorities L cfg tab (p # ps) priority_cap st = Inr (p, st1)
            \<and> nesting_loop L cfg tab (p # ps) (Suc k) i st
                = nesting_loop L cfg tab (p # ps) k (Suc i) st1)"
  using process_level_result [OF assms(1)] assms by auto

theorem priority_scan_break_witness:
  "scan_priorities (flat_soup []) sample_config sample_commands (0 # [- 333]) priority_cap
     ([INode (TNode (py ''z'') [] [])], fresh_context sample_commands)
   = scan_priorities (flat_soup []) sample_config sample_commands [- 333] priority_cap
       ([INode (TNode (py ''z'') [] [])], fresh_context sample_commands)
   \<and> scan_priorities (flat_soup []) sample_config sample_commands (0 # [- 333]) priority_cap
       ([INode (TNode (py ''ldots'') [] []), INode (TNode (py ''z'') [] [])],
        fresh_context sample_commands)
     = Inr (0, [IStr (py ''...''), INode (TNode (py ''z'') [] [])],
            fresh_context sample_commands)"
proof -
  have a: "process_level (flat_soup []) sample_config sample_commands 0
             (find_all (flat_soup []) (fst ([INode (TNode (py ''z'') [] [])],
                                           fresh_context sample_commands))
                (command_keys sample_commands 0))
             priority_cap ([INode (TNode (py ''z'') [] [])], fresh_context sample_commands)
           = Inr (priority_cap, [INode (TNode (py ''z'') [] [])], fresh_context sample_commands)"
    by (simp add: eval_defs)
  have b: "process_level (flat_soup []) sample_config sample_commands 0
             (find_all (flat_soup [])
                (fst ([INode (TNode (py ''ldots'') [] []), INode (TNode (py ''z'') [] [])],
                      fresh_context sample_commands))
                (command_keys sample_commands 0))
             priority_cap
             ([INode (TNode (py ''ldots'') [] []), INode (TNode (py ''z'') [] [])],
              fresh_context sample_commands)
           = Inr (0, [IStr (py ''...''), INode (TNode (py ''z'') [] [])],
                  fresh_context sample_commands)"
    by (simp add: eval_defs)
  have c: "(0::int) \<noteq> priority_cap" by (simp add: priority_cap_def)
  show ?thesis
    using priority_scan_break [OF a c, of "[- 333]"] priority_scan_break [OF b c, of "[- 333]"] c
    by simp
qed

text \<open>
  The claim as stated fails on a document that holds only \<open>\z\<close>, under a table with
  \<open>ldots\<close> (priority 0) and \<open>z\<close> (priority -333): priority 0 expands nothing, and
  the scan still goes down to priority -333 and expands \<open>\z\<close> in the same outer
  iteration. On the document \<open>\ldots \z\<close> priority 0 expands \<open>\ldots\<close>, and that
  alone ends the scan: \<open>\z\<close> is left for the next outer iteration.
\<close>

theorem priority_scan_counterexample:
  "process_level (flat_soup []) sample_config sample_commands 0
     (find_all (flat_soup []) [INode (TNode (py ''z'') [] [])] (command_keys sample_commands 0))
     priority_cap ([INode (TNode (py ''z'') [] [])], fresh_context sample_commands)
   = Inr (priority_cap, [INode (TNode (py ''z'') [] [])], fresh_context sample_commands)
   \<and> scan_priorities (flat_soup []) sample_config sample_commands [0, - 333] priority_cap
       ([INode (TNode (py ''z'') [] [])], fresh_context sample_commands)
     = Inr (- 333,
            [IMeta (MetadataNode (py ''problem'')
                      (no_kwargs\<lparr>kw_num := Some (py ''1.''), kw_conduit_include := Some True,
                                 kw_conduit_num := Some (py ''1'')\<rparr>))],
            (fresh_context sample_commands)
              \<lparr>iterators := [(py ''problem'', 1), (py ''letter'', 0)]\<rparr>)
   \<and> scan_priorities (flat_soup []) sample_config sample_commands [0, - 333] priority_cap
       ([INode (TNode (py ''ldots'') [] []), INode (TNode (py ''z'') [] [])],
        fresh_context sample_commands)
     = Inr (0, [IStr (py ''...''), INode (TNode (py ''z'') [] [])],
            fresh_context sample_commands)"
  by (simp add: eval_defs)

section \<open>Limits\<close>

lemma nesting_loop_count:
  "snd (nesting_loop L cfg tab prios k i st) \<le> i + k"
proof (induction k arbitrary: i st)
  case 0
  then show ?case by simp
next
  case (Suc k)
  show ?case
  proof (cases "scan_priorities L cfg tab prios priority_cap st")
    case (Inl e)
    then show ?thesis by simp
  next
    case (Inr r)
    obtain ls st1 where r: "r = (ls, st1)" by (cases r)
    show ?thesis
      using Inr r Suc.IH [of "Suc i" st1] by auto
  qed
qed

lemma nesting_loop_exhausted:
  "run_unconverged L cfg tab prios k st \<noteq> None \<Longrightarrow>
     nesting_loop L cfg tab prios k i st
       = (Inl (NestingLimitExceeded (command_nesting_limit cfg)), i + k)"
proof (induction k arbitrary: i st)
  case 0
  then show ?case by simp
next
  case (Suc k)
  from Suc.prems obtain ls st1 where
    sc: "scan_priorities L cfg tab prios priority_cap st = Inr (ls, st1)"
    and ne: "ls \<noteq> priority_cap"
    and run: "run_unconverged L cfg tab prios k st1 \<noteq> None"
    by (auto split: sum.splits if_splits)
  from Suc.IH [OF run, of "Suc i"] sc ne show ?case by simp
qed

lemma convert_latex_no_definitions:
  assumes "TexSoup L latext = Some soup"
    and "find_all L soup [py ''newcommand''] = []"
    and "find_all L soup [py ''renewcommand''] = []"
  shows "convert_latex L cfg tab latext
         = fst (nesting_loop L cfg tab (all_priorities_of tab) (nat (command_nesting_limit cfg)) 0
                  (soup, fresh_context tab))"
  using assms by (simp add: convert_latex_def)

text \<open>
  C8. The outer loop of \<open>convert_latex\<close> runs at most \<open>command-nesting-limit\<close>
  iterations (the second component of \<open>nesting_loop\<close> counts them). When that many
  iterations have run and none of them raised or reached the sentinel, the loop
  ends there with the nesting-limit error, having run exactly that many iterations;
  on a document without macro definitions that is the result of \<open>convert_latex\<close>.
\<close>

theorem nesting_limit_bound:
  "snd (nesting_loop L cfg tab prios (nat (command_nesting_limit cfg)) 0 st)
     \<le> nat (command_nesting_limit cfg)
   \<and> (run_unconverged L cfg tab prios (nat (command_nesting_limit cfg)) st \<noteq> None \<longrightarrow>
        nesting_loop L cfg tab prios (nat (command_nesting_limit cfg)) 0 st
          = (Inl (NestingLimitExceeded (command_nesting_limit cfg)),
             nat (command_nesting_limit cfg)))
   \<and> (TexSoup L latext = Some soup \<and> find_all L soup [py ''newcommand''] = []
        \<and> find_all L soup [py ''renewcommand''] = []
        \<and> run_unconverged L cfg tab (all_priorities_of tab) (nat (command_nesting_limit cfg))
             (soup, fresh_context tab) \<noteq> None \<longrightarrow>
        convert_latex L cfg tab latext = Inl (NestingLimitExceeded (command_nesting_limit cfg)))"
proof (intro conjI impI)
  show "snd (nesting_loop L cfg tab prios (nat (command_nesting_limit cfg)) 0 st)
          \<le> nat (command_nesting_limit cfg)"
    using nesting_loop_count [of L cfg tab prios "nat (command_nesting_limit cfg)" 0 st] by simp
next
  assume "run_unconverged L cfg tab prios (nat (command_nesting_limit cfg)) st \<noteq> None"
  from nesting_loop_exhausted [OF this, of 0]
  show "nesting_loop L cfg tab prios (nat (command_nesting_limit cfg)) 0 st
          = (Inl (NestingLimitExceeded (command_nesting_limit cfg)),
             nat (command_nesting_limit cfg))"
    by simp
next
  assume h: "TexSoup L latext = Some soup \<and> find_all L soup [py ''newcommand''] = []
        \<and> find_all L soup [py ''renewcommand''] = []
        \<and> run_unconverged L cfg tab (all_priorities_of tab) (nat (command_nesting_limit cfg))
             (soup, fresh_context tab) \<noteq> None"
  then have run: "run_unconverged L cfg tab (all_priorities_of tab)
                    (nat (command_nesting_limit cfg)) (soup, fresh_context tab) \<noteq> None"
    by simp
  from h have "convert_latex L cfg tab latext
         = fst (nesting_loop L cfg tab (all_priorities_of tab) (nat (command_nesting_limit cfg)) 0
                  (soup, fresh_context tab))"
    by (intro convert_latex_no_definitions) simp_all
  with nesting_loop_exhausted [OF run, of 0]
  show "convert_latex L cfg tab latext = Inl (NestingLimitExceeded (command_nesting_limit cfg))"
    by simp
qed

lemma sample_priorities: "all_priorities_of sample_commands = [0, - 333]"
  by (simp add: all_priorities_of_def sample_commands_def get_priority_def command_def
      TextCommand_str_def)

theorem nesting_limit_bound_witness:
  "nesting_loop (flat_soup [(py ''x'', [INode (TNode (py ''ldots'') [] []),
                                        INode (TNode (py ''z'') [] [])])])
     (sample_config\<lparr>command_nesting_limit := 2\<rparr>) sample_commands [0, - 333] 2 0
     ([INode (TNode (py ''ldots'') [] []), INode (TNode (py ''z'') [] [])],
      fresh_context sample_commands)
   = (Inl (NestingLimitExceeded 2), 2)
   \<and> convert_latex (flat_soup [(py ''x'', [INode (TNode (py ''ldots'') [] []),
                                           INode (TNode (py ''z'') [] [])])])
       (sample_config\<lparr>command_nesting_limit := 2\<rparr>) sample_commands (py ''x'')
     = Inl (NestingLimitExceeded 2)"
proof -
  let ?L = "flat_soup [(py ''x'', [INode (TNode (py ''ldots'') [] []),
                                   INode (TNode (py ''z'') [] [])])]"
  let ?cfg = "sample_config\<lparr>command_nesting_limit := 2\<rparr>"
  let ?soup = "[INode (TNode (py ''ldots'') [] []), INode (TNode (py ''z'') [] [])]"
  have n: "nat (command_nesting_limit ?cfg) = Suc (Suc 0)" by simp
  have run: "run_unconverged ?L ?cfg sample_commands [0, - 333] (Suc (Suc 0))
          (?soup, fresh_context sample_commands) \<noteq> None"
    by (simp add: eval_defs)
  then have h: "TexSoup ?L (py ''x'') = Some ?soup \<and> find_all ?L ?soup [py ''newcommand''] = []
        \<and> find_all ?L ?soup [py ''renewcommand''] = []
        \<and> run_unconverged ?L ?cfg sample_commands (all_priorities_of sample_commands)
             (nat (command_nesting_limit ?cfg)) (?soup, fresh_context sample_commands) \<noteq> None"
    unfolding sample_priorities n by (simp add: flat_soup_def nodes_of_def)
  have two: "(2::nat) = Suc (Suc 0)" by simp
  show ?thesis
    using nesting_limit_bound [of ?L ?cfg sample_commands "all_priorities_of sample_commands"
        "(?soup, fresh_context sample_commands)" "py ''x''" ?soup] h run
    unfolding sample_priorities n two by simp
qed

text \<open>
  C9. When a node is ready and its \<open>invoke\<close> succeeds, the very next step compares
  the length of the serialized tree with \<open>character-limit\<close>: if it is larger, the
  level (and with it the conversion) fails at once with the size-limit error,
  whatever nodes are still to be processed; otherwise the level goes on from the new
  state with \<open>last_stage\<close> set. So a level that returns after an expansion always
  returns a tree within the limit.
\<close>

theorem size_checked_after_expansion:
  assumes "map_of tab (node_name L cmd) = Some callback"
    and "recursion_ready L (fst st) callback cmd tab"
    and "invoke L cfg callback st cmd (arg_data L (fst st) cmd) = Inr st1"
  shows "process_level L cfg tab p (cmd # cmds) ls st
         = (if int (length (soup_str L (fst st1))) > character_limit cfg
            then Inl (SizeLimitExceeded (character_limit cfg) (int (length (soup_str L (fst st1)))))
            else process_level L cfg tab p cmds p st1)
       \<and> (\<forall>ls2 st2. process_level L cfg tab p (cmd # cmds) ls st = Inr (ls2, st2) \<longrightarrow>
            int (length (soup_str L (fst st2))) \<le> character_limit cfg)
       \<and> (find_all L (fst st) (command_keys tab p) = cmd # cmds
            \<and> int (length (soup_str L (fst st1))) > character_limit cfg \<longrightarrow>
            scan_priorities L cfg tab (p # ps) ls st
              = Inl (SizeLimitExceeded (character_limit cfg) (int (length (soup_str L (fst st1)))))
            \<and> nesting_loop L cfg tab (p # ps) (Suc k) i st
              = (Inl (SizeLimitExceeded (character_limit cfg)
                        (int (length (soup_str L (fst st1))))), Suc i))"
proof (intro conjI allI impI)
  show eq: "process_level L cfg tab p (cmd # cmds) ls st
         = (if int (length (soup_str L (fst st1))) > character_limit cfg
            then Inl (SizeLimitExceeded (character_limit cfg) (int (length (soup_str L (fst st1)))))
            else process_level L cfg tab p cmds p st1)"
    using assms by simp
  {
    fix ls2 st2
    assume r: "process_level L cfg tab p (cmd # cmds) ls st = Inr (ls2, st2)"
    with eq have small: "int (length (soup_str L (fst st1))) \<le> character_limit cfg"
      and rest: "process_level L cfg tab p cmds p st1 = Inr (ls2, st2)"
      by (auto split: if_splits)
    from process_level_result [OF rest] small
    show "int (length (soup_str L (fst st2))) \<le> character_limit cfg" by auto
  }
  {
    fix q
    assume big: "find_all L (fst st) (command_keys tab p) = cmd # cmds
                 \<and> int (length (soup_str L (fst st1))) > character_limit cfg"
    with eq have lvl: "process_level L cfg tab p (find_all L (fst st) (command_keys tab p)) q st
         = Inl (SizeLimitExceeded (character_limit cfg) (int (length (soup_str L (fst st1)))))"
      using assms by simp
  }
  note lvl = this
  {
    assume big: "find_all L (fst st) (command_keys tab p) = cmd # cmds
                 \<and> int (length (soup_str L (fst st1))) > character_limit cfg"
    from lvl [OF big, of ls]
    show "scan_priorities L cfg tab (p # ps) ls st
            = Inl (SizeLimitExceeded (character_limit cfg) (int (length (soup_str L (fst st1)))))"
      by simp
    from lvl [OF big, of priority_cap]
    show "nesting_loop L cfg tab (p # ps) (Suc k) i st
            = (Inl (SizeLimitExceeded (character_limit cfg)
                      (int (length (soup_str L (fst st1))))), Suc i)"
      by simp
  }
qed

theorem size_checked_after_expansion_witness:
  "process_level (flat_soup []) (sample_config\<lparr>character_limit := 2\<rparr>) sample_commands 0
     [TNode (py ''ldots'') [] [], TNode (py ''ldots'') [] []] priority_cap
     ([INode (TNode (py ''ldots'') [] [])], fresh_context sample_commands)
   = Inl (SizeLimitExceeded 2 3)
   \<and> nesting_loop (flat_soup []) (sample_config\<lparr>character_limit := 2\<rparr>) sample_commands
       [0, - 333] (Suc 4) 0
       ([INode (TNode (py ''ldots'') [] [])], fresh_context sample_commands)
     = (Inl (SizeLimitExceeded 2 3), Suc 0)"
proof -
  let ?L = "flat_soup [] :: (tnode item list, tnode) texsoup"
  let ?cfg = "sample_config\<lparr>character_limit := 2\<rparr>"
  let ?st = "([INode (TNode (py ''ldots'') [] [])], fresh_context sample_commands)"
  have a: "map_of sample_commands (node_name ?L (TNode (py ''ldots'') [] []))
           = Some (TextCommand_str (py ''...'') 0 None False)"
    by (simp add: flat_soup_def sample_commands_def)
  have b: "recursion_ready ?L (fst ?st) (TextCommand_str (py ''...'') 0 None False)
             (TNode (py ''ldots'') [] []) sample_commands"
    by (simp add: eval_defs)
  have c: "invoke ?L ?cfg (TextCommand_str (py ''...'') 0 None False) ?st
             (TNode (py ''ldots'') [] []) (arg_data ?L (fst ?st) (TNode (py ''ldots'') [] []))
           = Inr ([IStr (py ''...'')], fresh_context sample_commands)"
    by (simp add: eval_defs)
  have d: "find_all ?L (fst ?st) (command_keys sample_commands 0) = TNode (py ''ldots'') [] [] # []
           \<and> int (length (soup_str ?L (fst ([IStr (py ''...'')], fresh_context sample_commands))))
               > character_limit ?cfg"
    by (simp add: eval_defs)
  have e: "process_level ?L ?cfg sample_commands 0
             (TNode (py ''ldots'') [] [] # [TNode (py ''ldots'') [] []]) priority_cap ?st
           = Inl (SizeLimitExceeded 2 3)"
    using size_checked_after_expansion [OF a b c, where p = 0
        and cmds = "[TNode (py ''ldots'') [] []]" and ls = priority_cap]
    by (simp add: flat_soup_def sample_config_def)
  have f: "nesting_loop ?L ?cfg sample_commands (0 # [- 333]) (Suc 4) 0 ?st
           = (Inl (SizeLimitExceeded (character_limit ?cfg)
                     (int (length (soup_str ?L
                        (fst ([IStr (py ''...'')], fresh_context sample_commands)))))), Suc 0)"
    using size_checked_after_expansion [OF a b c, where p = 0 and cmds = "[]"
        and ps = "[- 333]" and k = 4 and i = 0] d
    by blast
  from e f show ?thesis
    by (simp add: flat_soup_def sample_config_def)
qed

section \<open>What a macro definition does\<close>

lemma soup_to_command_fails: "soup_to_command L soup cmd \<noteq> Inr c"
  by (auto simp: soup_to_command_def TextCommand_init_def and_then_def Let_def
      split: sum.splits if_splits)

lemma add_commands_ok:
  "add_commands L cmds st = Inr st1 \<Longrightarrow> cmds = [] \<and> st1 = st"
proof (cases cmds)
  case Nil
  then show "add_commands L cmds st = Inr st1 \<Longrightarrow> cmds = [] \<and> st1 = st" by simp
next
  case (Cons c rest)
  assume a: "add_commands L cmds st = Inr st1"
  obtain soup tab where st: "st = (soup, tab)" by (cases st)
  from a Cons st soup_to_command_fails [of L soup c] show ?thesis
    by (cases "soup_to_command L soup c") (auto simp: and_then_def)
qed

text \<open>
  C2. On the document \<open>\newcommand{\foo}{bar}\<close> (one definition node with two brace
  groups: the name \<open>\foo\<close> and the body \<open>bar\<close>) \<open>convert_latex\<close> raises TypeError:
  \<open>soup_to_command\<close> hands the contents list of the body group to \<open>TextCommand\<close>,
  whose constructor applies a regular expression to it. By \<open>soup_to_command_fails\<close>
  no definition node, of any shape, makes \<open>soup_to_command\<close> return a command, so
  no table is ever extended; the key the table would get is the name of the
  definition node itself, not the name in its first brace group.
\<close>

theorem newcommand_raises:
  "convert_latex
     (flat_soup [(py ''x'',
        [INode (TNode (py ''newcommand'')
                  [TNode (py ''BraceGroup'') [] [INode (TNode (py ''foo'') [] [])],
                   TNode (py ''BraceGroup'') [] [IStr (py ''bar'')]] []),
         IStr (py ''hello'')])])
     sample_config BuiltinCommands (py ''x'') = Inl PyTypeError"
  by (simp add: convert_latex_def flat_soup_def nodes_of_def soup_to_command_def
      TextCommand_init_def)

section \<open>Documents without commands\<close>

lemma scan_nothing_found:
  "(\<And>p. find_all L (fst st) (command_keys tab p) = []) \<Longrightarrow>
     scan_priorities L cfg tab ps priority_cap st = Inr (priority_cap, st)"
  by (induction ps) simp_all

lemma convert_latex_plain:
  assumes "TexSoup L latext = Some soup"
    and "find_all L soup [py ''newcommand''] = []"
    and "find_all L soup [py ''renewcommand''] = []"
    and "\<And>p. find_all L soup (command_keys tab p) = []"
    and "0 < command_nesting_limit cfg"
  shows "convert_latex L cfg tab latext = Inr (soup, fresh_context tab)"
proof -
  from assms(5) obtain k where k: "nat (command_nesting_limit cfg) = Suc k"
    by (cases "nat (command_nesting_limit cfg)") auto
  have "scan_priorities L cfg tab (all_priorities_of tab) priority_cap (soup, fresh_context tab)
        = Inr (priority_cap, soup, fresh_context tab)"
    by (rule scan_nothing_found) (simp add: assms(4))
  then show ?thesis
    using assms(1,2,3) k by (simp add: convert_latex_def)
qed

lemma build_latex_plain:
  assumes "TexSoup L (preprocess latext) = Some soup"
    and "find_all L soup [py ''newcommand''] = []"
    and "find_all L soup [py ''renewcommand''] = []"
    and "\<And>p. find_all L soup (command_keys BuiltinCommands p) = []"
    and "0 < command_nesting_limit cfg"
  shows "build_latex L parse_obj cfg latext = Inl (MissingSheetId (no_sheet_id cfg))"
  using convert_latex_plain [OF assms]
  by (simp add: build_latex_def fresh_context_def)

text \<open>
  C3 (amended). For every input whose preprocessed text the parser accepts and in
  whose tree the queries for \<open>newcommand\<close>, for \<open>renewcommand\<close> and for the built-in
  commands of each priority find no node (no macro definition and no recognized
  command), under a nesting limit of at least 1, \<open>convert_latex\<close> returns the parsed tree as it
  is with a context in which no global attribute is set, and so \<open>build_latex\<close> fails
  with the missing-sheet-id error: no Document is produced.
\<close>

theorem plain_document_fails:
  assumes "TexSoup L (preprocess latext) = Some soup"
    and "find_all L soup [py ''newcommand''] = []"
    and "find_all L soup [py ''renewcommand''] = []"
    and "\<And>p. find_all L soup (command_keys BuiltinCommands p) = []"
    and "0 < command_nesting_limit cfg"
  shows "convert_latex L cfg BuiltinCommands (preprocess latext)
           = Inr (soup, fresh_context BuiltinCommands)
         \<and> build_latex L parse_obj cfg latext = Inl (MissingSheetId (no_sheet_id cfg))"
  using convert_latex_plain [OF assms] build_latex_plain [OF assms] by simp

lemma preprocess_plain_text: "preprocess (py ''plain text'') = py ''plain text''"
  by (simp add: preprocess_def Replacements_def replace_def strip_comments_def)

lemma preprocess_hello: "preprocess (py ''hello'') = py ''hello''"
  by (simp add: preprocess_def Replacements_def replace_def strip_comments_def)

theorem plain_document_fails_witness:
  "build_latex (flat_soup [(py ''plain text'', [IStr (py ''plain text'')])]) Some sample_config
     (py ''plain text'')
   = (Inl (MissingSheetId (py ''no sheet id'')) :: error + metadata_kwargs latex_document)"
proof -
  let ?L = "flat_soup [(py ''plain text'', [IStr (py ''plain text'')])]"
  have a: "TexSoup ?L (preprocess (py ''plain text'')) = Some [IStr (py ''plain text'')]"
    unfolding preprocess_plain_text by (simp add: flat_soup_def)
  have b: "\<And>ks. find_all ?L [IStr (py ''plain text'')] ks = []"
    by (simp add: flat_soup_def nodes_of_def)
  have c: "0 < command_nesting_limit sample_config" by (simp add: sample_config_def)
  show ?thesis
    using plain_document_fails [OF a b b b c, of Some] by (simp add: sample_config_def)
qed

text \<open>
  The claim as stated fails on the document \<open>hello\<close>, which holds no command and no
  macro definition: the conversion does not produce a Document with one text object,
  it fails with the missing-sheet-id error.
\<close>

theorem plain_document_counterexample:
  "build_latex (flat_soup [(py ''hello'', [IStr (py ''hello'')])]) Some sample_config (py ''hello'')
   = (Inl (MissingSheetId (py ''no sheet id'')) :: error + metadata_kwargs latex_document)"
proof -
  let ?L = "flat_soup [(py ''hello'', [IStr (py ''hello'')])]"
  have a: "TexSoup ?L (preprocess (py ''hello'')) = Some [IStr (py ''hello'')]"
    unfolding preprocess_hello by (simp add: flat_soup_def)
  have b: "\<And>ks. find_all ?L [IStr (py ''hello'')] ks = []"
    by (simp add: flat_soup_def nodes_of_def)
  have c: "0 < command_nesting_limit sample_config" by (simp add: sample_config_def)
  show ?thesis
    using build_latex_plain [OF a b b b c, of Some] by (simp add: sample_config_def)
qed

section \<open>Global attributes\<close>

lemma builtin_priorities: "all_priorities_of BuiltinCommands = [0, - 1, - 333]"
  by (simp add: all_priorities_of_def BuiltinCommands_def get_priority_def command_def
      TextCommand_str_def TextEnv_str_def)

lemma builtin_keys_0:
  "command_keys BuiltinCommands 0 =
     [py ''it'', py ''bf'', py ''HUGE'', py ''Huge'', py ''huge'', py ''LARGE'', py ''Large'',
      py ''large'', py ''textit'', py ''textbf'', py ''texttt'', py ''ldots'', py ''sheetid'',
      py ''sheetname'', py ''centerline'', py ''itemize'', py ''medskip'', py ''vspace'',
      py ''vspace*'', py ''hspace'', py ''hspace*'', py ''noindent'', py ''newpage'']"
  by (simp add: command_keys_def BuiltinCommands_def get_priority_def command_def
      TextCommand_str_def TextEnv_str_def)

lemma builtin_keys_env:
  "command_keys BuiltinCommands (- 1) = [py ''center'', py ''tikzpicture'']"
  by (simp add: command_keys_def BuiltinCommands_def get_priority_def command_def
      TextCommand_str_def TextEnv_str_def)

lemma builtin_keys_problem:
  "command_keys BuiltinCommands (- 333) =
     [py ''z'', py ''zcirc'', py ''leth'', py ''lett'', py ''lethcirc'', py ''lettcirc'',
      py ''zncirc'', py ''zn'', py ''zecirc'', py ''ze'']"
  by (simp add: command_keys_def BuiltinCommands_def get_priority_def command_def
      TextCommand_str_def TextEnv_str_def)

lemma builtin_sheetid:
  "map_of BuiltinCommands (py ''sheetid'') = Some (command (GlobalConfig (py ''sheet_id'') True))"
  by (simp add: BuiltinCommands_def)

lemma builtin_sheetname:
  "map_of BuiltinCommands (py ''sheetname'')
   = Some (command (GlobalConfig (py ''sheet_name'') True))"
  by (simp add: BuiltinCommands_def)

lemma builtin_it:
  "map_of BuiltinCommands (py ''it'') = Some (command (ErrorCommand (py ''textit'')))"
  by (simp add: BuiltinCommands_def)

lemma update_iterator_globals:
  "update_iterator ctx it_name v = Inr ctx1 \<Longrightarrow> globals ctx1 = globals ctx"
  by (auto simp: update_iterator_def split: option.splits if_splits)

lemma ProblemMacro_apply_globals:
  assumes "ProblemMacro_apply cfg fmt letter problem conduit_include cfmt ctx args = Inr (r, ctx1)"
  shows "globals ctx1 = globals ctx"
proof -
  from assms obtain c1 c2 where
    u1: "update_iterator ctx (py ''problem'') problem = Inr c1"
    and u2: "update_iterator c1 (py ''letter'') letter = Inr c2"
    and c: "ctx1 = c2"
    by (auto simp: ProblemMacro_apply_def and_then_def Let_def split: sum.splits)
  from update_iterator_globals [OF u1] update_iterator_globals [OF u2] c show ?thesis by simp
qed

lemma apply_command_globals:
  assumes "apply_command L cfg cb (soup, ctx) node args = Inr (r, soup1, ctx1)"
  shows "map_of (globals ctx1) key = map_of (globals ctx) key
         \<or> (\<exists>flag. kind cb = GlobalConfig key flag)"
proof (cases "kind cb")
  case (TextCommand content num_args optional_arg trim_contents)
  with assms show ?thesis
    by (auto simp: apply_command_def and_then_def split: sum.splits)
next
  case (ItemExtractor fmt)
  with assms show ?thesis
    by (auto simp: apply_command_def and_then_def split: sum.splits)
next
  case (TextEnv content num_args metaname optional_arg trim_contents)
  with assms show ?thesis
    by (auto simp: apply_command_def and_then_def split: sum.splits)
next
  case (ErrorCommand replace_name)
  with assms show ?thesis
    by (simp add: apply_command_def ErrorCommand_apply_def)
next
  case (GlobalConfig target_name flag)
  with assms show ?thesis
    by (auto simp: apply_command_def and_then_def GlobalConfig_apply_def map_of_dict_set
        split: sum.splits list.splits if_splits)
next
  case (ProblemMacro fmt letter problem conduit_include cfmt)
  with assms have
    "ProblemMacro_apply cfg fmt letter problem conduit_include cfmt ctx args = Inr (r, ctx1)"
    by (auto simp: apply_command_def and_then_def split: sum.splits)
  from ProblemMacro_apply_globals [OF this] show ?thesis by simp
qed

lemma strip_all_space:
  assumes "list_all is_space a"
  shows "strip a = []"
proof -
  from assms have d: "dropWhile is_space a = []" by (induction a) auto
  show ?thesis unfolding strip_def d by simp
qed

lemma nesting_loop_unfold:
  "0 < k \<Longrightarrow>
     nesting_loop L cfg tab prios k i st =
       (case scan_priorities L cfg tab prios priority_cap st of
          Inl e \<Rightarrow> (Inl e, Suc i)
        | Inr (last_stage, st1) \<Rightarrow>
            if last_stage = priority_cap then (Inr st1, Suc i)
            else nesting_loop L cfg tab prios (k - 1) (Suc i) st1)"
  by (cases k) (auto split: sum.splits)

lemma preprocess_x: "preprocess (py ''x'') = py ''x''"
  by (simp add: preprocess_def Replacements_def replace_def strip_comments_def)

lemmas builtin_eval = flat_soup_def metadata_repr_def nodes_of_def sample_config_def
  command_def recursion_ready_def invoke_def apply_command_def
  splice_def priority_cap_def fresh_context_def item_str_def
  arg_data_def GlobalConfig_apply_def strip_def is_space_def ErrorCommand_apply_def
  convert_latex_def builtin_priorities builtin_keys_0 [simplified]
  builtin_keys_env [simplified] builtin_keys_problem [simplified]
  builtin_sheetid [simplified] builtin_sheetname [simplified] builtin_it [simplified]
  nesting_loop_unfold

lemma convert_error_command:
  "convert_latex (flat_soup [(py ''x'', [INode (TNode (py ''it'') [] [])])]) sample_config
     BuiltinCommands (py ''x'')
   = Inl (InvalidCommand (py ''it'') (py ''textit''))"
  by (simp add: builtin_eval)

lemma convert_sheetid_only:
  "convert_latex
     (flat_soup [(py ''x'', [INode (TNode (py ''sheetid'')
                                     [TNode (py ''BraceGroup'') [] [IStr (py ''S 1'')]] [])])])
     sample_config BuiltinCommands (py ''x'')
   = Inr ([IStr []], (fresh_context BuiltinCommands)\<lparr>globals := [(py ''sheet_id'', py ''S 1'')]\<rparr>)"
  by (simp add: builtin_eval)

lemma convert_sheetid_blank:
  "convert_latex
     (flat_soup [(py ''x'', [INode (TNode (py ''sheetid'')
                                     [TNode (py ''BraceGroup'') [] [IStr (py ''  '')]] [])])])
     sample_config BuiltinCommands (py ''x'')
   = Inr ([IStr []], (fresh_context BuiltinCommands)\<lparr>globals := [(py ''sheet_id'', [])]\<rparr>)"
  by (simp add: builtin_eval)

lemma convert_sheetid_blank_name:
  "convert_latex
     (flat_soup [(py ''x'',
        [INode (TNode (py ''sheetid'') [TNode (py ''BraceGroup'') [] [IStr (py ''S 1'')]] []),
         INode (TNode (py ''sheetname'') [TNode (py ''BraceGroup'') [] [IStr [9, 32]]] [])])])
     sample_config BuiltinCommands (py ''x'')
   = Inr ([IStr [], IStr []],
          (fresh_context BuiltinCommands)
            \<lparr>globals := [(py ''sheet_id'', py ''S 1''), (py ''sheet_name'', [])]\<rparr>)"
  by (simp add: builtin_eval)

section \<open>Missing global attributes\<close>

lemma apply_command_result:
  assumes "apply_command L cfg cb (soup, ctx) node args = Inr (r, soup1, ctx1)"
  shows "node_free r \<and> (soup1 = soup \<or> soup1 = set_contents L soup node [])"
proof (cases "kind cb")
  case (TextCommand content num_args optional_arg trim_contents)
  with assms show ?thesis
    by (auto simp: apply_command_def and_then_def node_free_def split: sum.splits)
next
  case (ItemExtractor fmt)
  with assms show ?thesis
    by (auto simp: apply_command_def ItemExtractor_apply_def and_then_def node_free_def
        split: sum.splits)
next
  case (TextEnv content num_args metaname optional_arg trim_contents)
  with assms show ?thesis
    by (auto simp: apply_command_def TextEnv_apply_def and_then_def node_free_def
        split: sum.splits if_splits)
next
  case (ErrorCommand replace_name)
  with assms show ?thesis
    by (simp add: apply_command_def ErrorCommand_apply_def)
next
  case (GlobalConfig target_name flag)
  with assms show ?thesis
    by (auto simp: apply_command_def and_then_def GlobalConfig_apply_def node_free_def
        split: sum.splits list.splits if_splits)
next
  case (ProblemMacro fmt letter problem conduit_include cfmt)
  with assms show ?thesis
    by (auto simp: apply_command_def ProblemMacro_apply_def and_then_def node_free_def Let_def
        split: sum.splits)
qed

lemma invoke_keeps:
  assumes inv: "invoke L cfg cb (soup, ctx) node args = Inr (soup2, ctx2)"
    and I: "I soup" and R: "rewrite_invariant L I"
  shows "I soup2
         \<and> (map_of (globals ctx2) key = map_of (globals ctx) key
            \<or> (\<exists>flag. kind cb = GlobalConfig key flag))"
proof -
  from inv obtain r soup1 where
    ap: "apply_command L cfg cb (soup, ctx) node args = Inr (r, soup1, ctx2)"
    and s2: "soup2 = splice L soup1 node r"
    by (auto simp: invoke_def and_then_def split: sum.splits)
  from apply_command_result [OF ap] have nf: "node_free r"
    and s1: "soup1 = soup \<or> soup1 = set_contents L soup node []" by simp_all
  from s1 I R have "I soup1" by (auto simp: rewrite_invariant_def)
  with nf R s2 have "I soup2" by (auto simp: rewrite_invariant_def)
  with apply_command_globals [OF ap, of key] show ?thesis by simp
qed

lemma process_level_keeps:
  assumes R: "rewrite_invariant L I"
    and T: "only_command_for tab key name"
  shows "process_level L cfg tab p cmds ls st = Inr (ls1, st1) \<Longrightarrow> I (fst st) \<Longrightarrow>
           \<forall>n \<in> set cmds. node_name L n \<noteq> name \<Longrightarrow>
           I (fst st1) \<and> map_of (globals (snd st1)) key = map_of (globals (snd st)) key"
proof (induction cmds arbitrary: ls st)
  case Nil
  then show ?case by simp
next
  case (Cons cmd cmds)
  from Cons.prems(1) obtain callback where cb: "map_of tab (node_name L cmd) = Some callback"
    by (auto split: option.splits)
  have names: "\<forall>n \<in> set cmds. node_name L n \<noteq> name"
    using Cons.prems(3) by simp
  show ?case
  proof (cases "recursion_ready L (fst st) callback cmd tab")
    case False
    with Cons.prems(1) cb have "process_level L cfg tab p cmds ls st = Inr (ls1, st1)" by simp
    from Cons.IH [OF this Cons.prems(2) names] show ?thesis .
  next
    case True
    with Cons.prems(1) cb obtain st2 where
      iv: "invoke L cfg callback st cmd (arg_data L (fst st) cmd) = Inr st2"
      and rest: "process_level L cfg tab p cmds p st2 = Inr (ls1, st1)"
      by (auto split: sum.splits if_splits)
    obtain soup ctx where st: "st = (soup, ctx)" by (cases st)
    obtain soup2 ctx2 where st2: "st2 = (soup2, ctx2)" by (cases st2)
    from Cons.prems(3) have ne: "node_name L cmd \<noteq> name" by simp
    have "\<not> (\<exists>flag. kind callback = GlobalConfig key flag)"
      using T cb ne by (auto simp: only_command_for_def)
    with invoke_keeps [OF iv [unfolded st st2] _ R, of key] Cons.prems(2) st
    have I2: "I soup2" and g: "map_of (globals ctx2) key = map_of (globals ctx) key"
      by auto
    from Cons.IH [OF rest _ names] I2 st2
    have "I (fst st1) \<and> map_of (globals (snd st1)) key = map_of (globals ctx2) key" by simp
    with g st show ?thesis by simp
  qed
qed

lemma scan_priorities_keeps:
  assumes R: "rewrite_invariant L I"
    and T: "only_command_for tab key name"
    and N: "never_found L I name"
  shows "scan_priorities L cfg tab ps ls st = Inr (ls1, st1) \<Longrightarrow> I (fst st) \<Longrightarrow>
           I (fst st1) \<and> map_of (globals (snd st1)) key = map_of (globals (snd st)) key"
proof (induction ps arbitrary: ls st)
  case Nil
  then show ?case by simp
next
  case (Cons p ps)
  from Cons.prems(1) obtain ls2 st2 where
    lvl: "process_level L cfg tab p (find_all L (fst st) (command_keys tab p)) ls st
            = Inr (ls2, st2)"
    and rest: "(ls2 = p \<and> ls1 = ls2 \<and> st1 = st2)
               \<or> scan_priorities L cfg tab ps ls2 st2 = Inr (ls1, st1)"
    by (auto split: sum.splits if_splits)
  have "\<forall>n \<in> set (find_all L (fst st) (command_keys tab p)). node_name L n \<noteq> name"
    using N Cons.prems(2) by (auto simp: never_found_def)
  from process_level_keeps [OF R T lvl Cons.prems(2) this]
  have k2: "I (fst st2) \<and> map_of (globals (snd st2)) key = map_of (globals (snd st)) key"
    by blast
  from rest show ?case
  proof
    assume "ls2 = p \<and> ls1 = ls2 \<and> st1 = st2"
    with k2 show ?thesis by simp
  next
    assume "scan_priorities L cfg tab ps ls2 st2 = Inr (ls1, st1)"
    from Cons.IH [OF this] k2 show ?thesis by simp
  qed
qed

lemma nesting_loop_keeps:
  assumes R: "rewrite_invariant L I"
    and T: "only_command_for tab key name"
    and N: "never_found L I name"
  shows "fst (nesting_loop L cfg tab ps k i st) = Inr st1 \<Longrightarrow> I (fst st) \<Longrightarrow>
           map_of (globals (snd st1)) key = map_of (globals (snd st)) key"
proof (induction k arbitrary: i st)
  case 0
  then show ?case by simp
next
  case (Suc k)
  from Suc.prems(1) obtain ls2 st2 where
    sc: "scan_priorities L cfg tab ps priority_cap st = Inr (ls2, st2)"
    and rest: "(ls2 = priority_cap \<and> st1 = st2)
               \<or> (ls2 \<noteq> priority_cap \<and> fst (nesting_loop L cfg tab ps k (Suc i) st2) = Inr st1)"
    by (auto split: sum.splits if_splits)
  from scan_priorities_keeps [OF R T N sc Suc.prems(2)]
  have k2: "I (fst st2) \<and> map_of (globals (snd st2)) key = map_of (globals (snd st)) key"
    by blast
  from rest show ?case
  proof
    assume "ls2 = priority_cap \<and> st1 = st2"
    with k2 show ?thesis by simp
  next
    assume "ls2 \<noteq> priority_cap \<and> fst (nesting_loop L cfg tab ps k (Suc i) st2) = Inr st1"
    then have "fst (nesting_loop L cfg tab ps k (Suc i) st2) = Inr st1" by simp
    from Suc.IH [OF this] k2 show ?thesis by simp
  qed
qed

lemma convert_latex_never_sets:
  assumes conv: "convert_latex L cfg tab latext = Inr (soup, ctx)"
    and parsed: "TexSoup L latext = Some soup0"
    and I0: "I soup0"
    and R: "rewrite_invariant L I"
    and T: "only_command_for tab key name"
    and N: "never_found L I name"
  shows "map_of (globals ctx) key = None"
proof -
  from conv parsed obtain soup1 tab1 where
    ad: "add_commands L (find_all L soup0 [py ''newcommand''] @ find_all L soup0 [py ''renewcommand''])
           (soup0, tab) = Inr (soup1, tab1)"
    and lp: "fst (nesting_loop L cfg tab1 (all_priorities_of tab1)
                   (nat (command_nesting_limit cfg)) 0 (soup1, fresh_context tab1))
             = Inr (soup, ctx)"
    by (auto simp: convert_latex_def and_then_def split: sum.splits)
  from add_commands_ok [OF ad] have e: "soup1 = soup0" "tab1 = tab" by simp_all
  from nesting_loop_keeps [OF R T N lp [unfolded e]] I0
  show ?thesis by (simp add: fresh_context_def)
qed

lemma builtin_global_configs:
  "filter (\<lambda>kv. case kind (snd kv) of GlobalConfig k f \<Rightarrow> True | _ \<Rightarrow> False) BuiltinCommands
   = [(py ''sheetid'', command (GlobalConfig (py ''sheet_id'') True)),
      (py ''sheetname'', command (GlobalConfig (py ''sheet_name'') True))]"
  by (simp add: BuiltinCommands_def command_def TextCommand_str_def TextEnv_str_def)

lemma builtin_global_config_cases:
  assumes "map_of BuiltinCommands nm = Some cb" and "kind cb = GlobalConfig key flag"
  shows "(nm = py ''sheetid'' \<and> key = py ''sheet_id'')
         \<or> (nm = py ''sheetname'' \<and> key = py ''sheet_name'')"
proof -
  from assms(1) have "(nm, cb) \<in> set BuiltinCommands" by (rule map_of_SomeD)
  with assms(2) have
    "(nm, cb) \<in> set (filter (\<lambda>kv. case kind (snd kv) of GlobalConfig k f \<Rightarrow> True | _ \<Rightarrow> False)
                        BuiltinCommands)"
    by simp
  then have "(nm, cb) = (py ''sheetid'', command (GlobalConfig (py ''sheet_id'') True))
             \<or> (nm, cb) = (py ''sheetname'', command (GlobalConfig (py ''sheet_name'') True))"
    unfolding builtin_global_configs by simp
  with assms(2) show ?thesis by (auto simp: command_def)
qed

lemma builtin_only_sheetid: "only_command_for BuiltinCommands (py ''sheet_id'') (py ''sheetid'')"
  unfolding only_command_for_def
  using builtin_global_config_cases by fastforce

lemma builtin_only_sheetname:
  "only_command_for BuiltinCommands (py ''sheet_name'') (py ''sheetname'')"
  unfolding only_command_for_def
  using builtin_global_config_cases by fastforce

text \<open>
  C7 (amended). An error of the rewriting is the error of \<open>build_latex\<close>: the check of
  the global attributes stands after \<open>convert_latex\<close>. When the rewriting returns
  and no \<open>\sheetid\<close> invocation is ever found in the tree (the parsed tree has a
  property that the rewriting keeps and under which no query gives a node named
  \<open>sheetid\<close>), no command sets \<open>sheet_id\<close> and \<open>build_latex\<close> fails with the
  localized missing-sheet-id error. When the rewriting returns with a non-empty
  \<open>sheet_id\<close> and no \<open>\sheetname\<close> invocation is ever found, it fails with the
  missing-sheet-name error. Both hold whatever the tree holds and whatever the
  validation of objects would do, so before any object is folded.
\<close>

theorem missing_global_attribute:
  "(convert_latex L cfg BuiltinCommands (preprocess latext) = Inl e \<longrightarrow>
      build_latex L parse_obj cfg latext = Inl e)
   \<and> (convert_latex L cfg BuiltinCommands (preprocess latext) = Inr (soup, ctx)
        \<and> TexSoup L (preprocess latext) = Some soup0 \<and> I soup0 \<and> rewrite_invariant L I
        \<and> never_found L I (py ''sheetid'') \<longrightarrow>
      map_of (globals ctx) (py ''sheet_id'') = None
      \<and> build_latex L parse_obj cfg latext = Inl (MissingSheetId (no_sheet_id cfg)))
   \<and> (convert_latex L cfg BuiltinCommands (preprocess latext) = Inr (soup, ctx)
        \<and> TexSoup L (preprocess latext) = Some soup0 \<and> I soup0 \<and> rewrite_invariant L I
        \<and> never_found L I (py ''sheetname'')
        \<and> map_of (globals ctx) (py ''sheet_id'') = Some sid \<and> sid \<noteq> [] \<longrightarrow>
      map_of (globals ctx) (py ''sheet_name'') = None
      \<and> build_latex L parse_obj cfg latext = Inl (MissingSheetName (no_sheet_name cfg)))"
proof (intro conjI impI)
  assume "convert_latex L cfg BuiltinCommands (preprocess latext) = Inl e"
  then show "build_latex L parse_obj cfg latext = Inl e"
    by (simp add: build_latex_def)
next
  assume h: "convert_latex L cfg BuiltinCommands (preprocess latext) = Inr (soup, ctx)
        \<and> TexSoup L (preprocess latext) = Some soup0 \<and> I soup0 \<and> rewrite_invariant L I
        \<and> never_found L I (py ''sheetid'')"
  then have conv: "convert_latex L cfg BuiltinCommands (preprocess latext) = Inr (soup, ctx)"
    and parsed: "TexSoup L (preprocess latext) = Some soup0" and I0: "I soup0"
    and R: "rewrite_invariant L I" and N: "never_found L I (py ''sheetid'')"
    by simp_all
  from convert_latex_never_sets [OF conv parsed I0 R builtin_only_sheetid N]
  show none: "map_of (globals ctx) (py ''sheet_id'') = None" .
  from conv none show "build_latex L parse_obj cfg latext = Inl (MissingSheetId (no_sheet_id cfg))"
    by (simp add: build_latex_def)
next
  assume h: "convert_latex L cfg BuiltinCommands (preprocess latext) = Inr (soup, ctx)
        \<and> TexSoup L (preprocess latext) = Some soup0 \<and> I soup0 \<and> rewrite_invariant L I
        \<and> never_found L I (py ''sheetname'')
        \<and> map_of (globals ctx) (py ''sheet_id'') = Some sid \<and> sid \<noteq> []"
  then have conv: "convert_latex L cfg BuiltinCommands (preprocess latext) = Inr (soup, ctx)"
    and parsed: "TexSoup L (preprocess latext) = Some soup0" and I0: "I soup0"
    and R: "rewrite_invariant L I" and N: "never_found L I (py ''sheetname'')"
    and sid: "map_of (globals ctx) (py ''sheet_id'') = Some sid" "sid \<noteq> []"
    by simp_all
  from convert_latex_never_sets [OF conv parsed I0 R builtin_only_sheetname N]
  show none: "map_of (globals ctx) (py ''sheet_name'') = None" .
  from conv none sid
  show "build_latex L parse_obj cfg latext = Inl (MissingSheetName (no_sheet_name cfg))"
    by (simp add: build_latex_def)
qed

lemma nodes_of_replace_first:
  "nodes_of r = [] \<Longrightarrow> set (nodes_of (replace_first x r s)) \<subseteq> set (nodes_of s)"
  by (induction s) (auto simp: nodes_of_def)

lemma node_free_nodes_of: "node_free r \<Longrightarrow> nodes_of r = []"
  by (induction r) (auto simp: node_free_def nodes_of_def split: item.splits)

lemma flat_soup_invariant:
  "rewrite_invariant (flat_soup docs) (\<lambda>s. \<forall>n \<in> set (nodes_of s). tnode_name n \<noteq> nm)"
  unfolding rewrite_invariant_def
proof (intro conjI allI impI)
  fix s r :: "tnode item list" and n :: tnode
  assume a: "(\<forall>n \<in> set (nodes_of s). tnode_name n \<noteq> nm) \<and> node_free r"
  then have "nodes_of r = []" by (simp add: node_free_nodes_of)
  from nodes_of_replace_first [OF this, of "INode n" s] a
  show "\<forall>m \<in> set (nodes_of (splice (flat_soup docs) s n r)). tnode_name m \<noteq> nm"
    by (auto simp: splice_def flat_soup_def)
next
  fix s :: "tnode item list" and n
  assume "\<forall>n \<in> set (nodes_of s). tnode_name n \<noteq> nm"
  then show "\<forall>m \<in> set (nodes_of (set_contents (flat_soup docs) s n [])). tnode_name m \<noteq> nm"
    by (simp add: flat_soup_def)
qed

lemma flat_soup_never_found:
  "never_found (flat_soup docs) (\<lambda>s. \<forall>n \<in> set (nodes_of s). tnode_name n \<noteq> nm) nm"
  by (auto simp: never_found_def flat_soup_def)

lemma builtin_ldots:
  "map_of BuiltinCommands (py ''ldots'') = Some (TextCommand_str (py ''...'') 0 None False)"
  by (simp add: BuiltinCommands_def)

lemma convert_ldots_only:
  "convert_latex (flat_soup [(py ''x'', [INode (TNode (py ''ldots'') [] [])])]) sample_config
     BuiltinCommands (py ''x'')
   = Inr ([IStr (py ''...'')], fresh_context BuiltinCommands)"
  by (simp add: builtin_eval builtin_ldots [simplified] TextCommand_str_def
      TextCommand_recursion_ready_def TextCommand_apply_def format_py_def)

theorem missing_global_attribute_witness:
  "build_latex (flat_soup [(py ''x'', [INode (TNode (py ''it'') [] [])])]) Some sample_config
     (py ''x'')
   = (Inl (InvalidCommand (py ''it'') (py ''textit'')) :: error + metadata_kwargs latex_document)
   \<and> build_latex (flat_soup [(py ''x'', [INode (TNode (py ''ldots'') [] [])])]) Some
       sample_config (py ''x'')
     = (Inl (MissingSheetId (py ''no sheet id'')) :: error + metadata_kwargs latex_document)
   \<and> build_latex
       (flat_soup [(py ''x'', [INode (TNode (py ''sheetid'')
                                       [TNode (py ''BraceGroup'') [] [IStr (py ''S 1'')]] [])])])
       Some sample_config (py ''x'')
     = (Inl (MissingSheetName (py ''no sheet name'')) :: error + metadata_kwargs latex_document)"
proof -
  let ?L1 = "flat_soup [(py ''x'', [INode (TNode (py ''it'') [] [])])]"
  let ?L2 = "flat_soup [(py ''x'', [INode (TNode (py ''ldots'') [] [])])]"
  let ?L3 = "flat_soup [(py ''x'', [INode (TNode (py ''sheetid'')
                                      [TNode (py ''BraceGroup'') [] [IStr (py ''S 1'')]] [])])]"
  let ?I2 = "\<lambda>s. \<forall>n \<in> set (nodes_of s). tnode_name n \<noteq> py ''sheetid''"
  let ?I3 = "\<lambda>s. \<forall>n \<in> set (nodes_of s). tnode_name n \<noteq> py ''sheetname''"
  let ?c3 = "(fresh_context BuiltinCommands)\<lparr>globals := [(py ''sheet_id'', py ''S 1'')]\<rparr>"
  have h1: "convert_latex ?L1 sample_config BuiltinCommands (preprocess (py ''x''))
            = Inl (InvalidCommand (py ''it'') (py ''textit''))"
    unfolding preprocess_x by (rule convert_error_command)
  have h2: "convert_latex ?L2 sample_config BuiltinCommands (preprocess (py ''x''))
              = Inr ([IStr (py ''...'')], fresh_context BuiltinCommands)
            \<and> TexSoup ?L2 (preprocess (py ''x'')) = Some [INode (TNode (py ''ldots'') [] [])]
            \<and> ?I2 [INode (TNode (py ''ldots'') [] [])] \<and> rewrite_invariant ?L2 ?I2
            \<and> never_found ?L2 ?I2 (py ''sheetid'')"
    unfolding preprocess_x convert_ldots_only
    using flat_soup_invariant [of "[(py ''x'', [INode (TNode (py ''ldots'') [] [])])]"
        "py ''sheetid''"]
      flat_soup_never_found [of "[(py ''x'', [INode (TNode (py ''ldots'') [] [])])]"
        "py ''sheetid''"]
    by (simp add: flat_soup_def nodes_of_def)
  have h3: "convert_latex ?L3 sample_config BuiltinCommands (preprocess (py ''x''))
              = Inr ([IStr []], ?c3)
            \<and> TexSoup ?L3 (preprocess (py ''x''))
                = Some [INode (TNode (py ''sheetid'')
                                 [TNode (py ''BraceGroup'') [] [IStr (py ''S 1'')]] [])]
            \<and> ?I3 [INode (TNode (py ''sheetid'')
                             [TNode (py ''BraceGroup'') [] [IStr (py ''S 1'')]] [])]
            \<and> rewrite_invariant ?L3 ?I3
            \<and> never_found ?L3 ?I3 (py ''sheetname'')
            \<and> map_of (globals ?c3) (py ''sheet_id'') = Some (py ''S 1'') \<and> py ''S 1'' \<noteq> []"
    unfolding preprocess_x convert_sheetid_only
    using flat_soup_invariant [of "[(py ''x'', [INode (TNode (py ''sheetid'')
                                      [TNode (py ''BraceGroup'') [] [IStr (py ''S 1'')]] [])])]"
        "py ''sheetname''"]
      flat_soup_never_found [of "[(py ''x'', [INode (TNode (py ''sheetid'')
                                      [TNode (py ''BraceGroup'') [] [IStr (py ''S 1'')]] [])])]"
        "py ''sheetname''"]
    by (simp add: flat_soup_def nodes_of_def)
  have a: "build_latex ?L1 Some sample_config (py ''x'')
           = Inl (InvalidCommand (py ''it'') (py ''textit''))"
    using missing_global_attribute [where L = ?L1 and cfg = sample_config
        and latext = "py ''x''" and parse_obj = Some
        and e = "InvalidCommand (py ''it'') (py ''textit'')"] h1
    by blast
  have b: "build_latex ?L2 Some sample_config (py ''x'')
           = Inl (MissingSheetId (no_sheet_id sample_config))"
    using missing_global_attribute [where L = ?L2 and cfg = sample_config
        and latext = "py ''x''" and parse_obj = Some
        and soup = "[IStr (py ''...'')]" and ctx = "fresh_context BuiltinCommands"
        and ?soup0.0 = "[INode (TNode (py ''ldots'') [] [])]" and I = ?I2] h2
    by blast
  have c: "build_latex ?L3 Some sample_config (py ''x'')
           = Inl (MissingSheetName (no_sheet_name sample_config))"
    using missing_global_attribute [where L = ?L3 and cfg = sample_config
        and latext = "py ''x''" and parse_obj = Some
        and soup = "[IStr []]" and ctx = ?c3
        and ?soup0.0 = "[INode (TNode (py ''sheetid'')
                                  [TNode (py ''BraceGroup'') [] [IStr (py ''S 1'')]] [])]"
        and I = ?I3 and sid = "py ''S 1''"] h3
    by blast
  from a b c show ?thesis by (simp add: sample_config_def)
qed

text \<open>
  The claim as stated fails on the document \<open>\it\<close>: no \<open>GlobalConfig\<close> command
  ever sets \<open>sheet_id\<close>, yet the conversion fails with the invalid-command error of
  the rewriting, not with the missing-sheet-id error. On the document \<open>hello\<close> no
  command sets \<open>sheet_name\<close>, and the error is the missing-sheet-id one, not the
  missing-sheet-name one.
\<close>

theorem missing_global_attribute_counterexample:
  "build_latex (flat_soup [(py ''x'', [INode (TNode (py ''it'') [] [])])]) Some sample_config
     (py ''x'')
   = (Inl (InvalidCommand (py ''it'') (py ''textit'')) :: error + metadata_kwargs latex_document)
   \<and> build_latex (flat_soup [(py ''x'', [IStr (py ''hello'')])]) Some sample_config (py ''x'')
     = (Inl (MissingSheetId (py ''no sheet id'')) :: error + metadata_kwargs latex_document)"
proof -
  have plain: "convert_latex (flat_soup [(py ''x'', [IStr (py ''hello'')])]) sample_config
                 BuiltinCommands (py ''x'')
               = Inr ([IStr (py ''hello'')], fresh_context BuiltinCommands)"
    by (simp add: builtin_eval)
  show ?thesis
    unfolding build_latex_def preprocess_x convert_error_command plain
    by (simp add: fresh_context_def sample_config_def)
qed

section \<open>Blank global attributes\<close>

text \<open>
  C10. A \<open>GlobalConfig\<close> command with stripping (as \<open>\sheetid\<close> and \<open>\sheetname\<close>
  are) whose first argument is empty or holds only whitespace stores the empty
  string under its target. \<open>build_latex\<close> tests the stored value for truthiness: a
  context whose \<open>sheet_id\<close> is the empty string fails with the missing-sheet-id
  error, as if the key were absent, and one with a non-empty \<open>sheet_id\<close> and an empty
  \<open>sheet_name\<close> fails with the missing-sheet-name error.
\<close>

theorem blank_global_attribute:
  "(list_all is_space a \<and> target \<noteq> py ''iterators'' \<and> target \<noteq> py ''commands'' \<longrightarrow>
      apply_command L cfg (command (GlobalConfig target True)) (soup0, ctx0) node (a # rest)
        = Inr ([IStr []], soup0, ctx0\<lparr>globals := dict_set (globals ctx0) target []\<rparr>))
   \<and> (convert_latex L cfg BuiltinCommands (preprocess latext) = Inr (soup, ctx)
        \<and> map_of (globals ctx) (py ''sheet_id'') = Some [] \<longrightarrow>
      build_latex L parse_obj cfg latext = Inl (MissingSheetId (no_sheet_id cfg)))
   \<and> (convert_latex L cfg BuiltinCommands (preprocess latext) = Inr (soup, ctx)
        \<and> map_of (globals ctx) (py ''sheet_id'') = Some sid \<and> sid \<noteq> []
        \<and> map_of (globals ctx) (py ''sheet_name'') = Some [] \<longrightarrow>
      build_latex L parse_obj cfg latext = Inl (MissingSheetName (no_sheet_name cfg)))"
  by (auto simp: build_latex_def apply_command_def command_def GlobalConfig_apply_def
      strip_all_space)

theorem blank_global_attribute_witness:
  "apply_command (flat_soup []) sample_config (command (GlobalConfig (py ''sheet_id'') True))
     ([], fresh_context []) (TNode (py ''sheetid'') [] []) [[32, 9, 10]]
   = Inr ([IStr []], [], (fresh_context [])\<lparr>globals := [(py ''sheet_id'', [])]\<rparr>)
   \<and> build_latex
       (flat_soup [(py ''x'', [INode (TNode (py ''sheetid'')
                                       [TNode (py ''BraceGroup'') [] [IStr (py ''  '')]] [])])])
       Some sample_config (py ''x'')
     = (Inl (MissingSheetId (py ''no sheet id'')) :: error + metadata_kwargs latex_document)
   \<and> build_latex
       (flat_soup [(py ''x'',
          [INode (TNode (py ''sheetid'') [TNode (py ''BraceGroup'') [] [IStr (py ''S 1'')]] []),
           INode (TNode (py ''sheetname'') [TNode (py ''BraceGroup'') [] [IStr [9, 32]]] [])])])
       Some sample_config (py ''x'')
     = (Inl (MissingSheetName (py ''no sheet name'')) :: error + metadata_kwargs latex_document)"
proof -
  let ?L1 = "flat_soup [(py ''x'', [INode (TNode (py ''sheetid'')
                                      [TNode (py ''BraceGroup'') [] [IStr (py ''  '')]] [])])]"
  let ?L2 = "flat_soup [(py ''x'',
          [INode (TNode (py ''sheetid'') [TNode (py ''BraceGroup'') [] [IStr (py ''S 1'')]] []),
           INode (TNode (py ''sheetname'') [TNode (py ''BraceGroup'') [] [IStr [9, 32]]] [])])]"
  let ?c1 = "(fresh_context BuiltinCommands)\<lparr>globals := [(py ''sheet_id'', [])]\<rparr>"
  let ?c2 = "(fresh_context BuiltinCommands)
               \<lparr>globals := [(py ''sheet_id'', py ''S 1''), (py ''sheet_name'', [])]\<rparr>"
  have h0: "list_all is_space [32, 9, 10] \<and> py ''sheet_id'' \<noteq> py ''iterators''
              \<and> py ''sheet_id'' \<noteq> py ''commands''"
    by (simp add: is_space_def)
  have h1: "convert_latex ?L1 sample_config BuiltinCommands (preprocess (py ''x''))
              = Inr ([IStr []], ?c1)
            \<and> map_of (globals ?c1) (py ''sheet_id'') = Some []"
    unfolding preprocess_x convert_sheetid_blank by simp
  have h2: "convert_latex ?L2 sample_config BuiltinCommands (preprocess (py ''x''))
              = Inr ([IStr [], IStr []], ?c2)
            \<and> map_of (globals ?c2) (py ''sheet_id'') = Some (py ''S 1'') \<and> py ''S 1'' \<noteq> []
            \<and> map_of (globals ?c2) (py ''sheet_name'') = Some []"
    unfolding preprocess_x convert_sheetid_blank_name by simp
  have a: "apply_command (flat_soup []) sample_config (command (GlobalConfig (py ''sheet_id'') True))
             ([], fresh_context []) (TNode (py ''sheetid'') [] []) ([32, 9, 10] # [])
           = Inr ([IStr []], [],
                  (fresh_context [])\<lparr>globals := dict_set (globals (fresh_context []))
                                                  (py ''sheet_id'') []\<rparr>)"
    using blank_global_attribute [where a = "[32, 9, 10]" and target = "py ''sheet_id''"
        and L = "flat_soup []" and cfg = sample_config and ?soup0.0 = "[]"
        and ?ctx0.0 = "fresh_context []" and node = "TNode (py ''sheetid'') [] []" and rest = "[]"]
      h0 by blast
  have b: "build_latex ?L1 Some sample_config (py ''x'')
           = Inl (MissingSheetId (no_sheet_id sample_config))"
    using blank_global_attribute [where L = ?L1 and cfg = sample_config and latext = "py ''x''"
        and parse_obj = Some and soup = "[IStr []]" and ctx = ?c1] h1 by blast
  have c: "build_latex ?L2 Some sample_config (py ''x'')
           = Inl (MissingSheetName (no_sheet_name sample_config))"
    using blank_global_attribute [where L = ?L2 and cfg = sample_config and latext = "py ''x''"
        and parse_obj = Some and soup = "[IStr [], IStr []]" and ctx = ?c2
        and sid = "py ''S 1''"] h2 by blast
  from a b c show ?thesis
    by (simp add: fresh_context_def sample_config_def)
qed

end
